theory Spec2Isabelle
  imports Main "HOL-Library.AList"
begin

section \<open>JavaScript values\<close>

text \<open>
  The telemetry API is written in JavaScript (\<^verbatim>\<open>api/index.js\<close>, the serverless entry point, and
  \<^verbatim>\<open>api/server.js\<close>, the stand-alone server).  A request is one that reaches a handler, with the
  body \<^verbatim>\<open>express.json()\<close> has parsed.

  A JavaScript number is a double.  The numbers the handlers compute are \<open>parseInt\<close> results and
  sums of them: each is \<open>NaN\<close>, an infinity, or an integer that a double represents.
  \<open>to_double\<close> rounds a mathematical integer to the nearest double (a significand of 53 bits,
  ties to the even one), and to an infinity from \<open>2^1024 - 2^970\<close> on.  The sign of a zero, which
  no handler observes, is not kept.
\<close>

datatype jsnum = NaN | PosInf | NegInf | Num int

fun bit_length :: "nat \<Rightarrow> nat" where
  "bit_length n = (if n = 0 then 0 else Suc (bit_length (n div 2)))"

declare bit_length.simps [simp del]

definition round_to_double :: "nat \<Rightarrow> nat option" where
  "round_to_double n =
     (if 2 ^ 1024 - 2 ^ 970 \<le> n then None
      else if n < 2 ^ 53 then Some n
      else
        let e = bit_length n - 53;
            q = n div 2 ^ e;
            r = n mod 2 ^ e;
            half = 2 ^ (e - 1)
        in Some ((if half < r \<or> (r = half \<and> odd q) then q + 1 else q) * 2 ^ e))"

definition to_double :: "int \<Rightarrow> jsnum" where
  "to_double i =
     (case round_to_double (nat \<bar>i\<bar>) of
        None \<Rightarrow> if i < 0 then NegInf else PosInf
      | Some m \<Rightarrow> Num (if i < 0 then - int m else int m))"

text \<open>The \<^verbatim>\<open>+\<close> of two numbers, which \<^verbatim>\<open>+=\<close> on a counter is.\<close>

fun jsadd :: "jsnum \<Rightarrow> jsnum \<Rightarrow> jsnum" where
  "jsadd (Num a) (Num b) = to_double (a + b)"
| "jsadd NaN y = NaN"
| "jsadd x NaN = NaN"
| "jsadd PosInf NegInf = NaN"
| "jsadd NegInf PosInf = NaN"
| "jsadd PosInf y = PosInf"
| "jsadd x PosInf = PosInf"
| "jsadd NegInf y = NegInf"
| "jsadd x NegInf = NegInf"

text \<open>
  The fields of a request body are JSON values.  A number of the body is kept as its canonical
  text, the string \<^verbatim>\<open>Number.prototype.toString\<close> gives for it (\<^verbatim>\<open>2\<close>, \<^verbatim>\<open>-5\<close>, \<^verbatim>\<open>2.7\<close>,
  \<^verbatim>\<open>1e+21\<close>): that text is what \<open>parseInt\<close> reads, two numbers are the same value exactly when
  their texts are equal, and the falsy numbers are the ones whose text is \<^verbatim>\<open>0\<close> or \<^verbatim>\<open>NaN\<close>.
  Strings are the UTF-8 bytes of the JavaScript string.
\<close>

datatype jsval =
    JUndefined
  | JNull
  | JBool bool
  | JNumber string
  | JString string
  | JArray "jsval list"
  | JObject "(string \<times> jsval) list"

text \<open>\<open>ToBoolean\<close>: what \<^verbatim>\<open>!x\<close> and \<^verbatim>\<open>x && ...\<close> test.  Every array and object is truthy.\<close>

fun truthy :: "jsval \<Rightarrow> bool" where
  "truthy JUndefined = False"
| "truthy JNull = False"
| "truthy (JBool b) = b"
| "truthy (JNumber t) = (t \<noteq> ''0'' \<and> t \<noteq> ''NaN'')"
| "truthy (JString s) = (s \<noteq> [])"
| "truthy (JArray xs) = True"
| "truthy (JObject fs) = True"

text \<open>
  Arrays and objects are compared by reference: the value of a request is an object of its own,
  which no value stored before is.
\<close>

fun is_reference :: "jsval \<Rightarrow> bool" where
  "is_reference (JArray xs) = True"
| "is_reference (JObject fs) = True"
| "is_reference v = False"

text \<open>A destructuring default \<^verbatim>\<open>{ x = d }\<close> applies only when the field is \<open>undefined\<close>.\<close>

definition default_to :: "jsval \<Rightarrow> jsval \<Rightarrow> jsval" where
  "default_to d v = (if v = JUndefined then d else v)"

text \<open>\<^verbatim>\<open>n || 0\<close> on a number: \<open>NaN\<close> and \<open>0\<close> are falsy, the infinities are not.\<close>

definition or_zero :: "jsnum \<Rightarrow> jsnum" where
  "or_zero n =
     (case n of
        NaN \<Rightarrow> Num 0
      | Num i \<Rightarrow> if i = 0 then Num 0 else Num i
      | PosInf \<Rightarrow> PosInf
      | NegInf \<Rightarrow> NegInf)"

subsection \<open>Conversion to a string\<close>

fun join_with :: "string \<Rightarrow> string list \<Rightarrow> string" where
  "join_with sep [] = []"
| "join_with sep [x] = x"
| "join_with sep (x # y # ys) = x @ sep @ join_with sep (y # ys)"

text \<open>
  \<open>ToString\<close> of a value.  An array is joined with commas, \<open>null\<close> and \<open>undefined\<close> elements
  giving the empty string.  An object parsed from JSON gives \<^verbatim>\<open>[object Object]\<close>, unless it has
  a key \<^verbatim>\<open>toString\<close> of its own: that property is not a function, the inherited \<^verbatim>\<open>valueOf\<close>
  returns the object, and the conversion throws a \<open>TypeError\<close> (\<open>None\<close>).
\<close>

fun ToString :: "jsval \<Rightarrow> string option" where
  "ToString JUndefined = Some ''undefined''"
| "ToString JNull = Some ''null''"
| "ToString (JBool b) = Some (if b then ''true'' else ''false'')"
| "ToString (JNumber t) = Some t"
| "ToString (JString s) = Some s"
| "ToString (JArray xs) =
     map_option (join_with '','')
       (those (map (\<lambda>x. if x = JUndefined \<or> x = JNull then Some [] else ToString x) xs))"
| "ToString (JObject fs) =
     (if ''toString'' \<in> fst ` set fs then None else Some ''[object Object]'')"

subsection \<open>\<open>parseInt\<close> with no radix argument\<close>

text \<open>
  \<open>parseInt\<close> converts its argument to a string, skips leading white space, reads an optional
  sign, an optional \<^verbatim>\<open>0x\<close> prefix (radix 16, otherwise radix 10), and the longest run of digits;
  with no digit the result is \<open>NaN\<close>, otherwise the double nearest to the integer read.  The
  white space is JavaScript's: the ASCII characters 9 to 13 and 32, and the UTF-8 forms of
  U+00A0, U+1680, U+2000 to U+200A, U+2028, U+2029, U+202F, U+205F, U+3000 and U+FEFF;
  \<open>space_prefix\<close> is the number of bytes of the white-space character a string begins with.
\<close>

definition space_prefix :: "string \<Rightarrow> nat" where
  "space_prefix s =
     (case map of_char (take 3 s) :: nat list of
        [] \<Rightarrow> 0
      | a # bs \<Rightarrow>
          if (9 \<le> a \<and> a \<le> 13) \<or> a = 32 then 1
          else
            (case bs of
               [] \<Rightarrow> 0
             | b # cs \<Rightarrow>
                 if a = 194 \<and> b = 160 then 2
                 else
                   (case cs of
                      [] \<Rightarrow> 0
                    | c # ds \<Rightarrow>
                        if (a = 225 \<and> b = 154 \<and> c = 128) \<or>
                           (a = 226 \<and> b = 128 \<and>
                              ((128 \<le> c \<and> c \<le> 138) \<or> c = 168 \<or> c = 169 \<or> c = 175)) \<or>
                           (a = 226 \<and> b = 129 \<and> c = 159) \<or>
                           (a = 227 \<and> b = 128 \<and> c = 128) \<or>
                           (a = 239 \<and> b = 187 \<and> c = 191)
                        then 3 else 0)))"

function skip_space :: "string \<Rightarrow> string" where
  "skip_space s = (if space_prefix s = 0 then s else skip_space (drop (space_prefix s) s))"
  by pat_completeness auto

termination
proof (relation "measure length")
  show "wf (measure length)" by simp
next
  fix s :: string
  assume "space_prefix s \<noteq> 0"
  moreover from this have "s \<noteq> []"
    by (auto simp: space_prefix_def)
  ultimately show "(drop (space_prefix s) s, s) \<in> measure length"
    by simp
qed

declare skip_space.simps [simp del]

definition digit_of :: "nat \<Rightarrow> char \<Rightarrow> nat option" where
  "digit_of radix c =
     (let n = (of_char c :: nat);
          d = (if 48 \<le> n \<and> n \<le> 57 then Some (n - 48)
               else if 97 \<le> n \<and> n \<le> 122 then Some (n - 87)
               else if 65 \<le> n \<and> n \<le> 90 then Some (n - 55)
               else None)
      in case d of None \<Rightarrow> None | Some v \<Rightarrow> if v < radix then Some v else None)"

fun read_digits :: "nat \<Rightarrow> string \<Rightarrow> nat option \<Rightarrow> nat option" where
  "read_digits radix [] acc = acc"
| "read_digits radix (c # cs) acc =
     (case digit_of radix c of
        None \<Rightarrow> acc
      | Some d \<Rightarrow> read_digits radix cs (Some ((case acc of None \<Rightarrow> 0 | Some a \<Rightarrow> a) * radix + d)))"

definition parseInt_string :: "string \<Rightarrow> jsnum" where
  "parseInt_string str =
     (let s = skip_space str;
          neg = (s \<noteq> [] \<and> hd s = CHR ''-'');
          s1 = (if s \<noteq> [] \<and> (hd s = CHR ''+'' \<or> hd s = CHR ''-'') then tl s else s);
          hex = (take 2 s1 = ''0x'' \<or> take 2 s1 = ''0X'');
          s2 = (if hex then drop 2 s1 else s1)
      in case read_digits (if hex then 16 else 10) s2 None of
           None \<Rightarrow> NaN
         | Some m \<Rightarrow> to_double (if neg then - int m else int m))"

text \<open>\<open>None\<close> is the \<open>TypeError\<close> of the conversion to a string.\<close>

definition parseInt :: "jsval \<Rightarrow> jsnum option" where
  "parseInt v = map_option parseInt_string (ToString v)"

subsection \<open>\<open>Math.round\<close> of a quotient of integers\<close>

text \<open>\<open>Math.round\<close> rounds to the nearest integer, a half towards \<open>+\<infinity>\<close>.\<close>

definition round_div :: "int \<Rightarrow> int \<Rightarrow> int" where
  "round_div a b = (2 * a + b) div (2 * b)"

section \<open>The session store\<close>

text \<open>
  \<^verbatim>\<open>stats.sessions\<close> is a JavaScript \<open>Map\<close>: insertion ordered, keyed here by the generated
  session identifiers, which are strings.  A key of any other type is never present.  The fields
  \<^verbatim>\<open>userAgent\<close> and \<^verbatim>\<open>ip\<close> of a session are never read by the handlers modelled and are left
  out.  Time stamps are milliseconds since the epoch; one handler run reads the clock once.
\<close>

record session =
  sessionId :: string
  startTime :: int
  endTime :: "int option"
  duration :: "int option"
  faceDetections :: jsnum
  objectDetections :: jsnum
  interactions :: int
  filters :: "jsval list"
  lastActivity :: int

record stats =
  totalSessions :: int
  totalDetections :: jsnum
  totalFaceDetections :: jsnum
  totalInteractions :: int
  sessions :: "(string \<times> session) list"
  serverStartTime :: int
  lastUpdated :: int

definition Map_get :: "(string \<times> 'v) list \<Rightarrow> jsval \<Rightarrow> 'v option" where
  "Map_get m k = (case k of JString s \<Rightarrow> map_of m s | _ \<Rightarrow> None)"

definition Map_has :: "(string \<times> 'v) list \<Rightarrow> jsval \<Rightarrow> bool" where
  "Map_has m k = (Map_get m k \<noteq> None)"

definition Map_set :: "string \<Rightarrow> 'v \<Rightarrow> (string \<times> 'v) list \<Rightarrow> (string \<times> 'v) list" where
  "Map_set k v m = AList.update k v m"

definition Map_delete :: "string \<Rightarrow> (string \<times> 'v) list \<Rightarrow> (string \<times> 'v) list" where
  "Map_delete k m = AList.delete k m"

definition Map_values :: "(string \<times> 'v) list \<Rightarrow> 'v list" where
  "Map_values m = map snd m"

section \<open>Paths\<close>

text \<open>
  \<^verbatim>\<open>path.join\<close> and \<^verbatim>\<open>path.resolve\<close> are Node's POSIX implementations: the arguments are
  concatenated with \<^verbatim>\<open>/\<close> and the result is normalised segment by segment (\<^verbatim>\<open>.\<close> and empty
  segments are dropped, \<^verbatim>\<open>..\<close> removes the segment before it).  \<open>cwd\<close> is the absolute path
  \<^verbatim>\<open>process.cwd()\<close> returns.
\<close>

fun split_on :: "char \<Rightarrow> string \<Rightarrow> string list" where
  "split_on c [] = [[]]"
| "split_on c (x # xs) =
     (if x = c then [] # split_on c xs
      else (case split_on c xs of
              [] \<Rightarrow> [[x]]
            | seg # segs \<Rightarrow> (x # seg) # segs))"

definition push_segment :: "bool \<Rightarrow> string list \<Rightarrow> string \<Rightarrow> string list" where
  "push_segment allowAboveRoot res seg =
     (if seg = [] \<or> seg = ''.'' then res
      else if seg = ''..'' then
        (if res \<noteq> [] \<and> last res \<noteq> ''..'' then butlast res
         else if allowAboveRoot then res @ [''..'']
         else res)
      else res @ [seg])"

definition normalizeString :: "string \<Rightarrow> bool \<Rightarrow> string" where
  "normalizeString path allowAboveRoot =
     join_with ''/'' (foldl (push_segment allowAboveRoot) [] (split_on CHR ''/'' path))"

definition path_normalize :: "string \<Rightarrow> string" where
  "path_normalize path =
     (if path = [] then ''.''
      else
        let isAbsolute = (hd path = CHR ''/'');
            trailingSeparator = (last path = CHR ''/'');
            p = normalizeString path (\<not> isAbsolute)
        in if p = [] then (if isAbsolute then ''/'' else if trailingSeparator then ''./'' else ''.'')
           else (if isAbsolute then ''/'' else []) @ p @ (if trailingSeparator then ''/'' else []))"

definition path_join :: "string list \<Rightarrow> string" where
  "path_join args =
     (let parts = filter (\<lambda>a. a \<noteq> []) args
      in if parts = [] then ''.'' else path_normalize (join_with ''/'' parts))"

definition path_resolve :: "string \<Rightarrow> string \<Rightarrow> string" where
  "path_resolve cwd p =
     (let full = (if p = [] then cwd else if hd p = CHR ''/'' then p else cwd @ ''/'' @ p)
      in ''/'' @ normalizeString full False)"

definition basename :: "string \<Rightarrow> string" where
  "basename p = last (split_on CHR ''/'' p)"

definition startsWith :: "string \<Rightarrow> string \<Rightarrow> bool" where
  "startsWith s pre = (take (length pre) s = pre)"

definition endsWith :: "string \<Rightarrow> string \<Rightarrow> bool" where
  "endsWith s suf = (length suf \<le> length s \<and> drop (length s - length suf) s = suf)"

section \<open>The environment and the file system\<close>

text \<open>
  The built-ins the code calls but does not define are parameters of the model:
  \<^verbatim>\<open>Date.prototype.toISOString\<close>, \<^verbatim>\<open>JSON.stringify\<close> and \<^verbatim>\<open>decodeURIComponent\<close> (which
  throws \<open>URIError\<close>, here \<open>None\<close>), with the configuration \<^verbatim>\<open>LOGS_DIR\<close>, the working
  directory and \<^verbatim>\<open>process.pid\<close>.  A \<open>json\<close> term is what the logger serialises: a value of
  the request (\<open>JV\<close>), a number the handler has computed (\<open>JNum\<close>), the filter list, an object.
\<close>

datatype json = JV jsval | JNum jsnum | JList "jsval list" | JRecord "(string \<times> json) list"

record env =
  LOGS_DIR :: string
  cwd :: string
  pid :: int
  toISOString :: "int \<Rightarrow> string"
  JSON_stringify :: "json \<Rightarrow> string"
  decodeURIComponent :: "string \<Rightarrow> string option"

definition MAX_LOG_FILE_SIZE :: nat where
  "MAX_LOG_FILE_SIZE = 10 * 1024 * 1024"

text \<open>
  The file system holds regular files and directories, keyed by the path string the program
  names them with; a directory has the size and the modification time its \<^verbatim>\<open>stat\<close> reports.
  Every synchronous call can throw: \<open>faults\<close> says which call on which path the operating
  system refuses for a reason the model does not hold (a full disk, a permission, a missing
  parent directory, a target that cannot be replaced).
\<close>

record fsfile =
  content :: string
  mtime :: int

datatype fsnode = File fsfile | Dir nat int

datatype fsop = StatOp | RenameOp | AppendOp | ReadOp | ReaddirOp

datatype fserror = EIO | ENOENT | EISDIR | ENOTDIR

record world =
  nodes :: "(string \<times> fsnode) list"
  faults :: "fsop \<Rightarrow> string \<Rightarrow> bool"

definition fsize :: "fsfile \<Rightarrow> nat" where
  "fsize f = length (content f)"

text \<open>The fields \<^verbatim>\<open>size\<close> and \<^verbatim>\<open>mtime\<close> of the object \<^verbatim>\<open>fs.statSync\<close> returns.\<close>

fun node_size :: "fsnode \<Rightarrow> nat" where
  "node_size (File f) = fsize f"
| "node_size (Dir n t) = n"

fun node_mtime :: "fsnode \<Rightarrow> int" where
  "node_mtime (File f) = mtime f"
| "node_mtime (Dir n t) = t"

definition existsSync :: "world \<Rightarrow> string \<Rightarrow> bool" where
  "existsSync w p = (map_of (nodes w) p \<noteq> None)"

definition statSync :: "world \<Rightarrow> string \<Rightarrow> fserror + fsnode" where
  "statSync w p =
     (if faults w StatOp p then Inl EIO
      else case map_of (nodes w) p of None \<Rightarrow> Inl ENOENT | Some n \<Rightarrow> Inr n)"

text \<open>
  \<^verbatim>\<open>fs.renameSync\<close> moves a file to the new path, where it replaces what was there; a directory
  moves with everything below it.
\<close>

definition moved :: "string \<Rightarrow> string \<Rightarrow> string \<Rightarrow> string" where
  "moved old new p =
     (if p = old then new
      else if startsWith p (old @ ''/'') then new @ drop (length old) p
      else p)"

definition renameSync :: "world \<Rightarrow> string \<Rightarrow> string \<Rightarrow> fserror + world" where
  "renameSync w old new =
     (if faults w RenameOp old then Inl EIO
      else case map_of (nodes w) old of
             None \<Rightarrow> Inl ENOENT
           | Some (File f) \<Rightarrow> Inr (w\<lparr>nodes := AList.update new (File f) (AList.delete old (nodes w))\<rparr>)
           | Some (Dir n t) \<Rightarrow>
               Inr (w\<lparr>nodes := map (\<lambda>e. (moved old new (fst e), snd e)) (AList.delete new (nodes w))\<rparr>))"

text \<open>\<^verbatim>\<open>fs.appendFileSync\<close> creates the file when nothing is at the path.\<close>

definition appendFileSync :: "world \<Rightarrow> int \<Rightarrow> string \<Rightarrow> string \<Rightarrow> fserror + world" where
  "appendFileSync w now p data =
     (if faults w AppendOp p then Inl EIO
      else case map_of (nodes w) p of
             Some (Dir n t) \<Rightarrow> Inl EISDIR
           | Some (File f) \<Rightarrow>
               Inr (w\<lparr>nodes := AList.update p (File \<lparr>content = content f @ data, mtime = now\<rparr>) (nodes w)\<rparr>)
           | None \<Rightarrow>
               Inr (w\<lparr>nodes := AList.update p (File \<lparr>content = data, mtime = now\<rparr>) (nodes w)\<rparr>))"

definition readFileSync :: "world \<Rightarrow> string \<Rightarrow> fserror + string" where
  "readFileSync w p =
     (if faults w ReadOp p then Inl EIO
      else case map_of (nodes w) p of
             None \<Rightarrow> Inl ENOENT
           | Some (Dir n t) \<Rightarrow> Inl EISDIR
           | Some (File f) \<Rightarrow> Inr (content f))"

text \<open>
  An entry of directory \<open>d\<close> is a file or a directory whose path is the join of \<open>d\<close> and its own
  base name.
\<close>

definition readdirSync :: "world \<Rightarrow> string \<Rightarrow> fserror + string list" where
  "readdirSync w d =
     (if faults w ReaddirOp d then Inl EIO
      else case map_of (nodes w) d of
             None \<Rightarrow> Inl ENOENT
           | Some (File f) \<Rightarrow> Inl ENOTDIR
           | Some (Dir n t) \<Rightarrow>
               Inr (map basename (filter (\<lambda>p. path_join [d, basename p] = p) (map fst (nodes w)))))"

section \<open>The event logger\<close>

text \<open>The decimal text of \<^verbatim>\<open>Date.now()\<close> inside a template string.\<close>

fun digits_of :: "nat \<Rightarrow> string" where
  "digits_of n =
     (if n < 10 then [''0123456789'' ! n]
      else digits_of (n div 10) @ [''0123456789'' ! (n mod 10)])"

declare digits_of.simps [simp del]

definition decimal :: "int \<Rightarrow> string" where
  "decimal i = (if i < 0 then CHR ''-'' # digits_of (nat (- i)) else digits_of (nat i))"

text \<open>
  \<^verbatim>\<open>logToFile(eventType, data)\<close> binds \<^verbatim>\<open>dateString\<close>, \<^verbatim>\<open>logPath\<close>, \<^verbatim>\<open>backupPath\<close> and
  \<^verbatim>\<open>logEntry\<close>; they are the four functions below.  \<open>rotate\<close> is the part of \<^verbatim>\<open>logToFile\<close>
  before the write, the same in both files: when the day's file exists and its size is greater
  than \<^verbatim>\<open>MAX_LOG_FILE_SIZE\<close>, it is renamed to a backup name that carries the time.  \<open>Inl\<close> is
  an exception thrown by \<^verbatim>\<open>statSync\<close> or \<^verbatim>\<open>renameSync\<close>.
\<close>

definition dateString_of :: "env \<Rightarrow> int \<Rightarrow> string" where
  "dateString_of E now = hd (split_on CHR ''T'' (toISOString E now))"

definition logPath_of :: "env \<Rightarrow> int \<Rightarrow> string \<Rightarrow> string" where
  "logPath_of E now eventType =
     path_join [LOGS_DIR E, eventType @ ''_'' @ dateString_of E now @ ''.log'']"

definition backupPath_of :: "env \<Rightarrow> int \<Rightarrow> string \<Rightarrow> string" where
  "backupPath_of E now eventType =
     path_join [LOGS_DIR E,
       eventType @ ''_'' @ dateString_of E now @ ''_'' @ decimal now @ ''.log.backup'']"

definition rotate :: "env \<Rightarrow> world \<Rightarrow> int \<Rightarrow> string \<Rightarrow> fserror + world" where
  "rotate E w now eventType =
     (let logPath = logPath_of E now eventType in
      if existsSync w logPath then
        (case statSync w logPath of
           Inl e \<Rightarrow> Inl e
         | Inr fileStats \<Rightarrow>
             if node_size fileStats > MAX_LOG_FILE_SIZE
             then renameSync w logPath (backupPath_of E now eventType)
             else Inr w)
      else Inr w)"

definition logEntry_of :: "env \<Rightarrow> int \<Rightarrow> string \<Rightarrow> json \<Rightarrow> string" where
  "logEntry_of E now eventType data =
     JSON_stringify E (JRecord
       [(''timestamp'', JV (JString (toISOString E now))),
        (''event'', JV (JString eventType)),
        (''data'', data),
        (''pid'', JNum (Num (pid E)))]) @ [CHR 0x0A]"

text \<open>
  \<^verbatim>\<open>logToFile\<close> of \<^verbatim>\<open>api/index.js\<close>: the whole body is inside \<^verbatim>\<open>try\<close>; the \<^verbatim>\<open>catch\<close> returns
  \<open>false\<close> and keeps what had been done before the exception.
\<close>

definition logToFile_index :: "env \<Rightarrow> world \<Rightarrow> int \<Rightarrow> string \<Rightarrow> json \<Rightarrow> bool \<times> world" where
  "logToFile_index E w now eventType data =
     (case rotate E w now eventType of
        Inl e \<Rightarrow> (False, w)
      | Inr w1 \<Rightarrow>
          (case appendFileSync w1 now (logPath_of E now eventType) (logEntry_of E now eventType data) of
             Inl e \<Rightarrow> (False, w1)
           | Inr w2 \<Rightarrow> (True, w2)))"

text \<open>
  \<^verbatim>\<open>logToFile\<close> of \<^verbatim>\<open>api/server.js\<close> writes with the asynchronous \<^verbatim>\<open>fs.appendFile\<close> and returns
  \<open>true\<close> at once; a write error only reaches the callback, which prints it.  The world
  returned is the one after the write has completed or failed.
\<close>

definition logToFile_server :: "env \<Rightarrow> world \<Rightarrow> int \<Rightarrow> string \<Rightarrow> json \<Rightarrow> bool \<times> world" where
  "logToFile_server E w now eventType data =
     (case rotate E w now eventType of
        Inl e \<Rightarrow> (False, w)
      | Inr w1 \<Rightarrow>
          (case appendFileSync w1 now (logPath_of E now eventType) (logEntry_of E now eventType data) of
             Inl e \<Rightarrow> (True, w1)
           | Inr w2 \<Rightarrow> (True, w2)))"

section \<open>Requests and responses\<close>

text \<open>
  The fields a handler destructures from \<^verbatim>\<open>req.body\<close>; a field the body does not carry is
  \<open>undefined\<close>.  A response is the HTTP status with the part of the JSON body the handler
  computes from the state; \<open>Failure n\<close> is \<^verbatim>\<open>res.status(n).json({ success: false, error })\<close>.
  The successful answers carry, in the order of the constructors' arguments:
  \<^item> \<open>SessionStarted\<close>: \<open>sessionId\<close> and the start time;
  \<^item> \<open>DetectionRecorded\<close>: \<open>sessionStats.faceDetections\<close>, \<open>.objectDetections\<close>, \<open>.totalDetections\<close>,
    then \<open>globalStats.totalFaceDetections\<close> and \<open>.totalDetections\<close>;
  \<^item> \<open>InteractionRecorded_index\<close>: \<open>totalInteractionsInSession\<close> and \<open>filters\<close>;
  \<^item> \<open>InteractionRecorded_server\<close>: \<open>sessionStats.totalInteractions\<close>, \<open>.uniqueFilters\<close>,
    \<open>.lastActivity\<close>, then \<open>globalStats.totalInteractions\<close>;
  \<^item> \<open>SessionEnded_index\<close>: \<open>faceDetections\<close>, \<open>objectDetections\<close>, \<open>interactions\<close>, \<open>duration\<close>,
    \<open>filters\<close>; \<open>SessionEnded_server\<close>: the closed session its summary is read from;
  \<^item> \<open>StatsSnapshot\<close>: the \<open>statistics\<close> object and the list of active sessions;
  \<^item> \<open>LogList\<close>: name, size and modification time of each listed entry; \<open>LogContent\<close>: the
    decoded file name, the text read (the handler then splits it into lines), and the \<open>size\<close>
    and \<open>lastModified\<close> the two later \<^verbatim>\<open>fs.statSync\<close> calls report.
\<close>

record body =
  req_sessionId :: jsval
  req_faceCount :: jsval
  req_objectCount :: jsval
  req_confidenceLevel :: jsval
  req_detectionType :: jsval
  req_metadata :: jsval
  req_widgetName :: jsval
  req_action :: jsval
  req_value :: jsval
  req_coordinates :: jsval

record log_entry =
  entry_name :: string
  sizeBytes :: nat
  lastModified :: int

record active_session =
  as_sessionId :: string
  as_startTime :: int
  as_duration :: int
  as_faceDetections :: jsnum
  as_objectDetections :: jsnum
  as_interactions :: int
  as_filters :: "jsval list"
  as_lastActivity :: int

record statistics =
  st_totalSessions :: int
  st_activeSessions :: nat
  st_totalDetections :: jsnum
  st_totalFaceDetections :: jsnum
  st_totalInteractions :: int
  st_avgDetectionsPerSession :: jsnum
  st_avgDuration :: int

datatype response =
    Failure nat
  | SessionStarted string int
  | DetectionRecorded jsnum jsnum jsnum jsnum jsnum
  | InteractionRecorded_index int "jsval list"
  | InteractionRecorded_server int nat int int
  | SessionEnded_index jsnum jsnum int "int option" "jsval list"
  | SessionEnded_server session
  | StatsSnapshot statistics "active_session list"
  | LogList "log_entry list"
  | LogContent string string nat int

fun success :: "response \<Rightarrow> bool" where
  "success (Failure n) = False"
| "success _ = True"

fun status :: "response \<Rightarrow> nat" where
  "status (Failure n) = n"
| "status _ = 200"

text \<open>The destructuring \<^verbatim>\<open>{ faceCount = 0, objectCount = 0 }\<close> of the detection handlers.\<close>

definition faceCount_of :: "body \<Rightarrow> jsval" where
  "faceCount_of req = default_to (JNumber ''0'') (req_faceCount req)"

definition objectCount_of :: "body \<Rightarrow> jsval" where
  "objectCount_of req = default_to (JNumber ''0'') (req_objectCount req)"

text \<open>
  \<^verbatim>\<open>session.field = ...\<close> on the object \<^verbatim>\<open>stats.sessions.get(sessionId)\<close> returned changes the
  object the \<open>Map\<close> holds under that key.
\<close>

definition Map_mutate :: "jsval \<Rightarrow> ('v \<Rightarrow> 'v) \<Rightarrow> (string \<times> 'v) list \<Rightarrow> (string \<times> 'v) list" where
  "Map_mutate k f m = (case k of JString s \<Rightarrow> AList.map_entry s f m | _ \<Rightarrow> m)"

text \<open>
  \<^verbatim>\<open>Array.prototype.includes\<close> compares with \<open>SameValueZero\<close>: strings, numbers and booleans by
  value, an array or an object by reference, so that the value of a request, when it is one, is
  found in no list.
\<close>

definition Array_includes :: "jsval list \<Rightarrow> jsval \<Rightarrow> bool" where
  "Array_includes xs v = (\<not> is_reference v \<and> v \<in> set xs)"

definition push_filter :: "jsval \<Rightarrow> jsval \<Rightarrow> jsval list \<Rightarrow> jsval list" where
  "push_filter widgetName v fs =
     (if widgetName = JString ''filterSelect'' \<and> truthy v \<and> \<not> Array_includes fs v then fs @ [v] else fs)"

section \<open>The handlers of \<^verbatim>\<open>api/index.js\<close>\<close>

text \<open>
  The identifier \<^verbatim>\<open>POST /api/session/start\<close> builds from \<^verbatim>\<open>Date.now()\<close> and from \<open>rnd\<close>, the
  nine characters it takes from \<^verbatim>\<open>Math.random().toString(36)\<close>.  The headers \<open>userAgent\<close> and
  \<open>ip\<close> are the bytes received, which Node delivers one character per byte, so that
  \<^verbatim>\<open>substring(0, 200)\<close> takes the first 200 of them.
\<close>

definition new_sessionId :: "int \<Rightarrow> string \<Rightarrow> string" where
  "new_sessionId now rnd = ''session_'' @ decimal now @ ''_'' @ rnd"

definition validateSession_index :: "stats \<Rightarrow> jsval \<Rightarrow> bool" where
  "validateSession_index st sid = Map_has (sessions st) sid"

definition index_session_start ::
  "env \<Rightarrow> world \<Rightarrow> stats \<Rightarrow> int \<Rightarrow> string \<Rightarrow> string \<Rightarrow> string \<Rightarrow> response \<times> stats \<times> world" where
  "index_session_start E w st now rnd userAgent ip =
     (let sid = new_sessionId now rnd;
          sessionData = \<lparr>sessionId = sid, startTime = now, endTime = None, duration = None,
                         faceDetections = Num 0, objectDetections = Num 0, interactions = 0,
                         filters = [], lastActivity = now\<rparr>;
          st' = st\<lparr>sessions := Map_set sid sessionData (sessions st),
                    totalSessions := totalSessions st + 1,
                    lastUpdated := now\<rparr>;
          logged = logToFile_index E w now ''SESSION_START''
                     (JRecord [(''sessionId'', JV (JString sid)),
                               (''ip'', JV (JString ip)),
                               (''userAgent'', JV (JString (take 200 userAgent))),
                               (''timestamp'', JV (JString (toISOString E now)))])
      in (SessionStarted sid now, st', snd logged))"

text \<open>
  The detection handler evaluates \<^verbatim>\<open>parseInt(faceCount) || 0\<close> and \<^verbatim>\<open>parseInt(objectCount) || 0\<close>
  before it changes anything; a \<open>TypeError\<close> there is caught by the handler's \<^verbatim>\<open>catch\<close>, which
  answers 500.
\<close>

definition index_detection_record ::
  "env \<Rightarrow> world \<Rightarrow> stats \<Rightarrow> int \<Rightarrow> body \<Rightarrow> response \<times> stats \<times> world" where
  "index_detection_record E w st now req =
     (let sid = req_sessionId req;
          faceCount = faceCount_of req;
          objectCount = objectCount_of req
      in if \<not> truthy sid then (Failure 400, st, w)
         else if \<not> validateSession_index st sid then (Failure 404, st, w)
         else
           (case Map_get (sessions st) sid of
              None \<Rightarrow> (Failure 500, st, w)
            | Some session \<Rightarrow>
                (case parseInt faceCount of
                   None \<Rightarrow> (Failure 500, st, w)
                 | Some parsedFace \<Rightarrow>
                     (case parseInt objectCount of
                        None \<Rightarrow> (Failure 500, st, w)
                      | Some parsedObject \<Rightarrow>
                          let faceNum = or_zero parsedFace;
                              objectNum = or_zero parsedObject;
                              session' = session\<lparr>faceDetections := jsadd (faceDetections session) faceNum,
                                                 objectDetections := jsadd (objectDetections session) objectNum,
                                                 lastActivity := now\<rparr>;
                              st' = st\<lparr>sessions := Map_mutate sid (\<lambda>s. session') (sessions st),
                                        totalFaceDetections := jsadd (totalFaceDetections st) faceNum,
                                        totalDetections := jsadd (totalDetections st) (jsadd faceNum objectNum),
                                        lastUpdated := now\<rparr>;
                              logged = logToFile_index E w now ''DETECTION_RECORD''
                                         (JRecord [(''sessionId'', JV sid),
                                                   (''timestamp'', JV (JString (toISOString E now))),
                                                   (''faceCount'', JNum faceNum),
                                                   (''objectCount'', JNum objectNum),
                                                   (''confidenceLevel'', JV (req_confidenceLevel req)),
                                                   (''detectionType'', JV (req_detectionType req))])
                          in (DetectionRecorded (faceDetections session') (objectDetections session')
                                (jsadd (faceDetections session') (objectDetections session'))
                                (totalFaceDetections st') (totalDetections st'),
                              st', snd logged)))))"

definition index_interaction_record ::
  "env \<Rightarrow> world \<Rightarrow> stats \<Rightarrow> int \<Rightarrow> body \<Rightarrow> response \<times> stats \<times> world" where
  "index_interaction_record E w st now req =
     (let sid = req_sessionId req
      in if \<not> truthy sid then (Failure 400, st, w)
         else if \<not> validateSession_index st sid then (Failure 404, st, w)
         else
           (case Map_get (sessions st) sid of
              None \<Rightarrow> (Failure 500, st, w)
            | Some session \<Rightarrow>
                let session' = session\<lparr>interactions := interactions session + 1,
                                       lastActivity := now,
                                       filters := push_filter (req_widgetName req) (req_value req)
                                                    (filters session)\<rparr>;
                    st' = st\<lparr>sessions := Map_mutate sid (\<lambda>s. session') (sessions st),
                              totalInteractions := totalInteractions st + 1,
                              lastUpdated := now\<rparr>;
                    logged = logToFile_index E w now ''INTERACTION_RECORD''
                               (JRecord [(''sessionId'', JV sid),
                                         (''timestamp'', JV (JString (toISOString E now))),
                                         (''widgetName'', JV (req_widgetName req)),
                                         (''action'', JV (req_action req)),
                                         (''value'', JV (req_value req))])
                in (InteractionRecorded_index (interactions session') (filters session'),
                    st', snd logged)))"

definition session_end_log :: "env \<Rightarrow> int \<Rightarrow> jsval \<Rightarrow> session \<Rightarrow> json" where
  "session_end_log E now sid session =
     JRecord [(''sessionId'', JV sid),
              (''timestamp'', JV (JString (toISOString E now))),
              (''duration'', (case duration session of None \<Rightarrow> JV JUndefined
                                                   | Some d \<Rightarrow> JNum (Num d))),
              (''stats'', JRecord [(''faceDetections'', JNum (faceDetections session)),
                                   (''objectDetections'', JNum (objectDetections session)),
                                   (''interactions'', JNum (Num (interactions session))),
                                   (''filters'', JList (filters session))])]"

definition close_session :: "int \<Rightarrow> session \<Rightarrow> session" where
  "close_session now session =
     session\<lparr>endTime := Some now,
             duration := Some (round_div (now - startTime session) 1000),
             lastActivity := now\<rparr>"

definition index_session_end ::
  "env \<Rightarrow> world \<Rightarrow> stats \<Rightarrow> int \<Rightarrow> body \<Rightarrow> response \<times> stats \<times> world" where
  "index_session_end E w st now req =
     (let sid = req_sessionId req
      in if \<not> truthy sid then (Failure 400, st, w)
         else if \<not> validateSession_index st sid then (Failure 404, st, w)
         else
           (case Map_get (sessions st) sid of
              None \<Rightarrow> (Failure 500, st, w)
            | Some session \<Rightarrow>
                let session' = close_session now session;
                    st' = st\<lparr>sessions := Map_mutate sid (\<lambda>s. session') (sessions st),
                              lastUpdated := now\<rparr>;
                    logged = logToFile_index E w now ''SESSION_END'' (session_end_log E now sid session')
                in (SessionEnded_index (faceDetections session') (objectDetections session')
                      (interactions session') (duration session') (filters session'),
                    st', snd logged)))"

section \<open>The handlers of \<^verbatim>\<open>api/server.js\<close>\<close>

text \<open>
  \<^verbatim>\<open>validateSession\<close> is a middleware here: it answers the request itself (\<open>Some\<close>) or calls
  \<^verbatim>\<open>next()\<close> (\<open>None\<close>).
\<close>

definition validateSession_server :: "stats \<Rightarrow> body \<Rightarrow> response option" where
  "validateSession_server st req =
     (let sid = req_sessionId req
      in if \<not> truthy sid then Some (Failure 400)
         else if \<not> Map_has (sessions st) sid then Some (Failure 404)
         else None)"

definition server_session_start ::
  "env \<Rightarrow> world \<Rightarrow> stats \<Rightarrow> int \<Rightarrow> string \<Rightarrow> string \<Rightarrow> string \<Rightarrow> response \<times> stats \<times> world" where
  "server_session_start E w st now rnd userAgent ip =
     (let sid = new_sessionId now rnd;
          sessionData = \<lparr>sessionId = sid, startTime = now, endTime = None, duration = None,
                         faceDetections = Num 0, objectDetections = Num 0, interactions = 0,
                         filters = [], lastActivity = now\<rparr>;
          st' = st\<lparr>sessions := Map_set sid sessionData (sessions st),
                    totalSessions := totalSessions st + 1,
                    lastUpdated := now\<rparr>;
          logged = logToFile_server E w now ''SESSION_START''
                     (JRecord [(''sessionId'', JV (JString sid)),
                               (''ip'', JV (JString ip)),
                               (''userAgent'', JV (JString (take 200 userAgent))),
                               (''timestamp'', JV (JString (toISOString E now)))])
      in (SessionStarted sid now, st', snd logged))"

text \<open>
  The detection handler of the server adds \<^verbatim>\<open>parseInt(faceCount)\<close> to the session before it
  evaluates \<^verbatim>\<open>parseInt(objectCount)\<close>: a \<open>TypeError\<close> of the second leaves the first sum in the
  session, and the handler's \<^verbatim>\<open>catch\<close> answers 500.
\<close>

definition server_detection_record ::
  "env \<Rightarrow> world \<Rightarrow> stats \<Rightarrow> int \<Rightarrow> body \<Rightarrow> response \<times> stats \<times> world" where
  "server_detection_record E w st now req =
     (case validateSession_server st req of
        Some r \<Rightarrow> (r, st, w)
      | None \<Rightarrow>
          let sid = req_sessionId req;
              faceCount = faceCount_of req;
              objectCount = objectCount_of req
          in case Map_get (sessions st) sid of
               None \<Rightarrow> (Failure 404, st, w)
             | Some session \<Rightarrow>
                 (case parseInt faceCount of
                    None \<Rightarrow> (Failure 500, st, w)
                  | Some parsedFace \<Rightarrow>
                      let session1 = session\<lparr>faceDetections := jsadd (faceDetections session) parsedFace\<rparr>
                      in case parseInt objectCount of
                           None \<Rightarrow>
                             (Failure 500,
                              st\<lparr>sessions := Map_mutate sid (\<lambda>s. session1) (sessions st)\<rparr>, w)
                         | Some parsedObject \<Rightarrow>
                             let session' = session1\<lparr>objectDetections :=
                                                        jsadd (objectDetections session) parsedObject,
                                                      lastActivity := now\<rparr>;
                                 st' = st\<lparr>sessions := Map_mutate sid (\<lambda>s. session') (sessions st),
                                           totalFaceDetections := jsadd (totalFaceDetections st) parsedFace,
                                           totalDetections := jsadd (totalDetections st)
                                                                (jsadd parsedFace parsedObject),
                                           lastUpdated := now\<rparr>;
                                 logged = logToFile_server E w now ''DETECTION_RECORD''
                                            (JRecord [(''sessionId'', JV sid),
                                                      (''timestamp'', JV (JString (toISOString E now))),
                                                      (''faceCount'', JNum parsedFace),
                                                      (''objectCount'', JNum parsedObject),
                                                      (''confidenceLevel'', JV (req_confidenceLevel req)),
                                                      (''detectionType'', JV (req_detectionType req)),
                                                      (''metadata'', JV (req_metadata req))])
                             in (DetectionRecorded (faceDetections session') (objectDetections session')
                                   (jsadd (faceDetections session') (objectDetections session'))
                                   (totalFaceDetections st') (totalDetections st'),
                                 st', snd logged)))"

definition server_interaction_record ::
  "env \<Rightarrow> world \<Rightarrow> stats \<Rightarrow> int \<Rightarrow> body \<Rightarrow> response \<times> stats \<times> world" where
  "server_interaction_record E w st now req =
     (case validateSession_server st req of
        Some r \<Rightarrow> (r, st, w)
      | None \<Rightarrow>
          let sid = req_sessionId req
          in case Map_get (sessions st) sid of
               None \<Rightarrow> (Failure 404, st, w)
             | Some session \<Rightarrow>
                 let session' = session\<lparr>interactions := interactions session + 1,
                                        lastActivity := now,
                                        filters := push_filter (req_widgetName req) (req_value req)
                                                     (filters session)\<rparr>;
                     st' = st\<lparr>sessions := Map_mutate sid (\<lambda>s. session') (sessions st),
                               totalInteractions := totalInteractions st + 1,
                               lastUpdated := now\<rparr>;
                     logged = logToFile_server E w now ''INTERACTION_RECORD''
                                (JRecord [(''sessionId'', JV sid),
                                          (''timestamp'', JV (JString (toISOString E now))),
                                          (''widgetName'', JV (req_widgetName req)),
                                          (''action'', JV (req_action req)),
                                          (''value'', JV (req_value req)),
                                          (''coordinates'', JV (req_coordinates req))])
                 in (InteractionRecorded_server (interactions session') (length (filters session'))
                       (lastActivity session') (totalInteractions st'),
                     st', snd logged))"

text \<open>
  \<^verbatim>\<open>POST /api/session/end\<close> of the server also calls
  \<^verbatim>\<open>setTimeout(() => { stats.sessions.delete(sessionId) }, 60000)\<close>.  The pending timers are part
  of the server's state: each is the time it is due and the key its callback deletes.  The event
  loop runs the callbacks that are due before it handles what arrives next.
\<close>

record server_state =
  sstats :: stats
  timers :: "(int \<times> jsval) list"

definition Map_delete_key :: "jsval \<Rightarrow> (string \<times> 'v) list \<Rightarrow> (string \<times> 'v) list" where
  "Map_delete_key k m = (case k of JString s \<Rightarrow> Map_delete s m | _ \<Rightarrow> m)"

definition setTimeout :: "int \<Rightarrow> jsval \<Rightarrow> int \<Rightarrow> (int \<times> jsval) list \<Rightarrow> (int \<times> jsval) list" where
  "setTimeout now k delay ts = ts @ [(now + delay, k)]"

definition fire :: "stats \<Rightarrow> int \<times> jsval \<Rightarrow> stats" where
  "fire st t = st\<lparr>sessions := Map_delete_key (snd t) (sessions st)\<rparr>"

definition run_timers :: "int \<Rightarrow> server_state \<Rightarrow> server_state" where
  "run_timers now ss =
     \<lparr>sstats = foldl fire (sstats ss) (filter (\<lambda>t. fst t \<le> now) (timers ss)),
      timers = filter (\<lambda>t. \<not> fst t \<le> now) (timers ss)\<rparr>"

definition server_session_end ::
  "env \<Rightarrow> world \<Rightarrow> server_state \<Rightarrow> int \<Rightarrow> body \<Rightarrow> response \<times> server_state \<times> world" where
  "server_session_end E w ss now req =
     (let st = sstats ss in
      case validateSession_server st req of
        Some r \<Rightarrow> (r, ss, w)
      | None \<Rightarrow>
          let sid = req_sessionId req
          in case Map_get (sessions st) sid of
               None \<Rightarrow> (Failure 404, ss, w)
             | Some session \<Rightarrow>
                 let session' = close_session now session;
                     st' = st\<lparr>sessions := Map_mutate sid (\<lambda>s. session') (sessions st),
                               lastUpdated := now\<rparr>;
                     logged = logToFile_server E w now ''SESSION_END'' (session_end_log E now sid session')
                 in (SessionEnded_server session',
                     \<lparr>sstats = st', timers = setTimeout now sid 60000 (timers ss)\<rparr>,
                     snd logged))"

section \<open>Statistics\<close>

text \<open>
  \<^verbatim>\<open>GET /api/stats\<close> computes the same figures in both files.  \<^verbatim>\<open>s.duration || 0\<close> is \<open>0\<close>
  for a session with no \<open>duration\<close> field.
\<close>

definition activeSessions :: "stats \<Rightarrow> session list" where
  "activeSessions st = filter (\<lambda>s. endTime s = None) (Map_values (sessions st))"

definition duration_or_zero :: "session \<Rightarrow> int" where
  "duration_or_zero s = (case duration s of None \<Rightarrow> 0 | Some d \<Rightarrow> d)"

definition avgDuration :: "stats \<Rightarrow> int" where
  "avgDuration st =
     (if totalSessions st > 0
      then round_div (foldl (\<lambda>acc s. acc + duration_or_zero s) 0 (activeSessions st)) (totalSessions st)
      else 0)"

definition avgDetectionsPerSession :: "stats \<Rightarrow> jsnum" where
  "avgDetectionsPerSession st =
     (if totalSessions st > 0
      then (case totalDetections st of Num d \<Rightarrow> Num (round_div d (totalSessions st)) | n \<Rightarrow> n)
      else Num 0)"

definition api_stats :: "stats \<Rightarrow> int \<Rightarrow> response" where
  "api_stats st now =
     StatsSnapshot
       \<lparr>st_totalSessions = totalSessions st,
        st_activeSessions = length (activeSessions st),
        st_totalDetections = totalDetections st,
        st_totalFaceDetections = totalFaceDetections st,
        st_totalInteractions = totalInteractions st,
        st_avgDetectionsPerSession = avgDetectionsPerSession st,
        st_avgDuration = avgDuration st\<rparr>
       (map (\<lambda>s. \<lparr>as_sessionId = sessionId s, as_startTime = startTime s,
                   as_duration = round_div (now - startTime s) 1000,
                   as_faceDetections = faceDetections s, as_objectDetections = objectDetections s,
                   as_interactions = interactions s, as_filters = filters s,
                   as_lastActivity = lastActivity s\<rparr>)
            (activeSessions st))"

section \<open>Reading the logs\<close>



text \<open>
  \<^verbatim>\<open>GET /api/logs/:logFile\<close>, the same in both files.  \<open>logFile\<close> is the route parameter; the
  path is built from its decoded form, the \<^verbatim>\<open>.log\<close> test reads the parameter itself.  After the
  read, the answer is built with two more calls of \<^verbatim>\<open>fs.statSync\<close>, for \<open>size\<close> and
  \<open>lastModified\<close>; every exception is caught by the handler's \<^verbatim>\<open>catch\<close>, which answers 500.
\<close>

definition api_logs_read :: "env \<Rightarrow> world \<Rightarrow> string \<Rightarrow> response" where
  "api_logs_read E w logFile =
     (case decodeURIComponent E logFile of
        None \<Rightarrow> Failure 500
      | Some decodedFileName \<Rightarrow>
          let logPath = path_join [LOGS_DIR E, decodedFileName]
          in if \<not> startsWith logPath (path_resolve (cwd E) (LOGS_DIR E)) then Failure 403
             else if \<not> existsSync w logPath \<or> \<not> endsWith logFile ''.log'' then Failure 404
             else (case readFileSync w logPath of
                     Inl e \<Rightarrow> Failure 500
                   | Inr text \<Rightarrow>
                       (case statSync w logPath of
                          Inl e \<Rightarrow> Failure 500
                        | Inr sizeStats \<Rightarrow>
                            (case statSync w logPath of
                               Inl e \<Rightarrow> Failure 500
                             | Inr timeStats \<Rightarrow>
                                 LogContent decodedFileName text
                                   (node_size sizeStats) (node_mtime timeStats)))))"

section \<open>The session check of the minimal serverless copy\<close>

text \<open>
  \<^verbatim>\<open>src/unnamed/part_000\<close> holds two more copies of the API.  The first (its lines 1 to 414) keeps
  the sessions in an array; it is not a program, since the back-slashed back-ticks at its line
  153 stand outside any string, and it is not modelled.  The second (lines 415 to 613) is a
  minimal serverless copy whose detection, interaction and end-session handlers are all mounted
  behind the middleware below, which answers 400 to a missing and to an unknown \<open>sessionId\<close>
  alike.  A handler mounted \<open>behind\<close> a middleware runs only when the middleware calls
  \<^verbatim>\<open>next()\<close> (\<open>None\<close>).
\<close>

definition validateSession_minimal :: "stats \<Rightarrow> body \<Rightarrow> response option" where
  "validateSession_minimal st req =
     (let sid = req_sessionId req
      in if \<not> truthy sid \<or> \<not> Map_has (sessions st) sid then Some (Failure 400) else None)"

definition behind :: "response option \<Rightarrow> 's \<Rightarrow> world \<Rightarrow> response \<times> 's \<times> world \<Rightarrow> response \<times> 's \<times> world" where
  "behind answer st w handler = (case answer of Some r \<Rightarrow> (r, st, w) | None \<Rightarrow> handler)"

section \<open>Runs\<close>

text \<open>
  A run of the API is a sequence of requests, each with the time it is handled at.  The
  serverless file keeps \<^verbatim>\<open>stats\<close> only; the server also has its pending timers, and runs those
  that are due before each request.
\<close>

datatype request =
    Start string string string
  | Detect body
  | Interact body
  | End body

definition index_handle ::
  "env \<Rightarrow> world \<Rightarrow> stats \<Rightarrow> int \<Rightarrow> request \<Rightarrow> response \<times> stats \<times> world" where
  "index_handle E w st now r =
     (case r of
        Start rnd userAgent ip \<Rightarrow> index_session_start E w st now rnd userAgent ip
      | Detect req \<Rightarrow> index_detection_record E w st now req
      | Interact req \<Rightarrow> index_interaction_record E w st now req
      | End req \<Rightarrow> index_session_end E w st now req)"

fun index_run :: "env \<Rightarrow> stats \<times> world \<Rightarrow> (int \<times> request) list \<Rightarrow> stats \<times> world" where
  "index_run E sw [] = sw"
| "index_run E sw (ev # evs) =
     index_run E (snd (index_handle E (snd sw) (fst sw) (fst ev) (snd ev))) evs"

definition lift_stats ::
  "server_state \<Rightarrow> response \<times> stats \<times> world \<Rightarrow> response \<times> server_state \<times> world" where
  "lift_stats ss r = (fst r, ss\<lparr>sstats := fst (snd r)\<rparr>, snd (snd r))"

definition server_handle ::
  "env \<Rightarrow> world \<Rightarrow> server_state \<Rightarrow> int \<Rightarrow> request \<Rightarrow> response \<times> server_state \<times> world" where
  "server_handle E w ss now r =
     (case r of
        Start rnd userAgent ip \<Rightarrow> lift_stats ss (server_session_start E w (sstats ss) now rnd userAgent ip)
      | Detect req \<Rightarrow> lift_stats ss (server_detection_record E w (sstats ss) now req)
      | Interact req \<Rightarrow> lift_stats ss (server_interaction_record E w (sstats ss) now req)
      | End req \<Rightarrow> server_session_end E w ss now req)"

fun server_run ::
  "env \<Rightarrow> server_state \<times> world \<Rightarrow> (int \<times> request) list \<Rightarrow> server_state \<times> world" where
  "server_run E sw [] = sw"
| "server_run E sw (ev # evs) =
     server_run E (snd (server_handle E (snd sw) (run_timers (fst ev) (fst sw)) (fst ev) (snd ev))) evs"

fun starts :: "jsval \<Rightarrow> int \<times> request \<Rightarrow> bool" where
  "starts k (now, Start rnd userAgent ip) = (k = JString (new_sessionId now rnd))"
| "starts k (now, _) = False"

section \<open>Properties stated over the model\<close>

text \<open>The values that JavaScript compares by value: strings, numbers, booleans, and the rest.\<close>

definition scalars :: "jsval list \<Rightarrow> jsval list" where
  "scalars vs = filter (\<lambda>v. \<not> is_reference v) vs"

definition scalar_filters_distinct :: "stats \<Rightarrow> bool" where
  "scalar_filters_distinct st =
     list_all (\<lambda>s. distinct (scalars (filters s))) (Map_values (sessions st))"

definition open_without_duration :: "stats \<Rightarrow> bool" where
  "open_without_duration st =
     list_all (\<lambda>s. endTime s \<noteq> None \<or> duration s = None) (Map_values (sessions st))"

text \<open>
  The average the specification names \<open>avgDurationOfClosedSessions\<close>, written from its words:
  the mean of \<open>duration\<close> over the sessions whose \<open>endTime\<close> is set, rounded as the other
  averages are, \<open>0\<close> when there is none.
\<close>

definition spec_avgDurationOfClosedSessions :: "stats \<Rightarrow> int" where
  "spec_avgDurationOfClosedSessions st =
     (let closed = filter (\<lambda>s. endTime s \<noteq> None) (Map_values (sessions st))
      in if closed = [] then 0
         else round_div (sum_list (map duration_or_zero closed)) (int (length closed)))"

definition counters :: "stats \<Rightarrow> int \<times> jsnum \<times> jsnum \<times> int" where
  "counters st = (totalSessions st, totalDetections st, totalFaceDetections st, totalInteractions st)"

text \<open>
  What holds of a session from the moment the server has closed it: it is gone from the store,
  or the timer that will delete it is pending.
\<close>

definition evicted_or_pending :: "jsval \<Rightarrow> int \<Rightarrow> server_state \<Rightarrow> bool" where
  "evicted_or_pending k due ss =
     (\<not> Map_has (sessions (sstats ss)) k \<or> (due, k) \<in> set (timers ss))"

text \<open>
  A path is inside the log root when it is the root or continues it after a separator.  The
  name of an entry of a directory has no separator.
\<close>

definition inside :: "string \<Rightarrow> string \<Rightarrow> bool" where
  "inside root p = (p = root \<or> startsWith p (root @ ''/''))"


definition isAbsolute :: "string \<Rightarrow> bool" where
  "isAbsolute p = (p \<noteq> [] \<and> hd p = CHR ''/'')"

section \<open>Concrete inputs\<close>

text \<open>
  An environment for the examples: the log directory of \<^verbatim>\<open>api/index.js\<close>, a clock whose date
  is the first day of the epoch (the examples' times are within it), a serialiser that writes
  every record as \<^verbatim>\<open>{}\<close>, and a decoder for names without a \<^verbatim>\<open>%\<close>.  In \<open>relative_env\<close> the
  variable \<^verbatim>\<open>LOGS_DIR\<close> of the process environment is the relative path \<^verbatim>\<open>logs\<close>.
\<close>

definition example_env :: env where
  "example_env =
     \<lparr>LOGS_DIR = ''/tmp/logs'', cwd = ''/app'', pid = 4242,
      toISOString = (\<lambda>t. ''1970-01-01T00:00:00.000Z''),
      JSON_stringify = (\<lambda>j. ''{}''),
      decodeURIComponent = Some\<rparr>"


definition empty_body :: body where
  "empty_body =
     \<lparr>req_sessionId = JUndefined, req_faceCount = JUndefined, req_objectCount = JUndefined,
      req_confidenceLevel = JUndefined, req_detectionType = JUndefined, req_metadata = JUndefined,
      req_widgetName = JUndefined, req_action = JUndefined, req_value = JUndefined,
      req_coordinates = JUndefined\<rparr>"

definition initial_stats :: stats where
  "initial_stats =
     \<lparr>totalSessions = 0, totalDetections = Num 0, totalFaceDetections = Num 0,
      totalInteractions = 0, sessions = [], serverStartTime = 0, lastUpdated = 0\<rparr>"

definition empty_world :: world where
  "empty_world = \<lparr>nodes = [(''/tmp/logs'', Dir 4096 0)], faults = (\<lambda>op p. False)\<rparr>"

definition broken_disk :: world where
  "broken_disk = \<lparr>nodes = [], faults = (\<lambda>op p. True)\<rparr>"

definition example_id :: string where
  "example_id = ''session_0_abc''"

definition example_session :: session where
  "example_session =
     \<lparr>sessionId = example_id, startTime = 0, endTime = None, duration = None,
      faceDetections = Num 0, objectDetections = Num 0, interactions = 0,
      filters = [], lastActivity = 0\<rparr>"

definition example_stats :: stats where
  "example_stats =
     \<lparr>totalSessions = 1, totalDetections = Num 0, totalFaceDetections = Num 0,
      totalInteractions = 0, sessions = [(example_id, example_session)],
      serverStartTime = 0, lastUpdated = 0\<rparr>"

definition closed_session :: session where
  "closed_session = example_session\<lparr>endTime := Some 10000, duration := Some 10, lastActivity := 10000\<rparr>"

definition closed_stats :: stats where
  "closed_stats = example_stats\<lparr>sessions := [(example_id, closed_session)], lastUpdated := 10000\<rparr>"

definition example_body :: body where
  "example_body = empty_body\<lparr>req_sessionId := JString example_id\<rparr>"

text \<open>A count of 310 digits, beyond the range of a double, and its negative.\<close>

definition huge_count :: string where
  "huge_count = replicate 310 CHR ''9''"

definition huge_body :: body where
  "huge_body = example_body\<lparr>req_faceCount := JString huge_count,
                            req_objectCount := JString (CHR ''-'' # huge_count)\<rparr>"

text \<open>A day's log file of exactly the threshold size, and one a byte larger.\<close>

definition threshold_world :: world where
  "threshold_world =
     \<lparr>nodes = [(''/tmp/logs'', Dir 4096 0),
               (''/tmp/logs/SESSION_START_1970-01-01.log'',
                 File \<lparr>content = replicate MAX_LOG_FILE_SIZE CHR ''x'', mtime = 1\<rparr>)],
      faults = (\<lambda>op p. False)\<rparr>"

definition oversize_world :: world where
  "oversize_world =
     \<lparr>nodes = [(''/tmp/logs'', Dir 4096 0),
               (''/tmp/logs/SESSION_START_1970-01-01.log'',
                 File \<lparr>content = replicate (MAX_LOG_FILE_SIZE + 1) CHR ''x'', mtime = 1\<rparr>)],
      faults = (\<lambda>op p. False)\<rparr>"

text \<open>
  The log directory after a rotation (it also holds a directory whose name ends in \<^verbatim>\<open>.log\<close>),
  the same under the relative root, and files beside the log directory.
\<close>

definition rotated_world :: world where
  "rotated_world =
     \<lparr>nodes = [(''/tmp/logs'', Dir 4096 0),
               (''/tmp/logs/SESSION_START_1970-01-01_5.log.backup'', File \<lparr>content = ''old'', mtime = 1\<rparr>),
               (''/tmp/logs/SESSION_START_1970-01-01.log'', File \<lparr>content = ''new'', mtime = 5\<rparr>),
               (''/tmp/logs/archive.log'', Dir 4096 2)],
      faults = (\<lambda>op p. False)\<rparr>"


definition sibling_world :: world where
  "sibling_world =
     \<lparr>nodes = [(''/tmp/logs'', Dir 4096 0),
               (''/tmp/logs.log'', File \<lparr>content = ''secret'', mtime = 1\<rparr>),
               (''/tmp/logs-private'', Dir 4096 0),
               (''/tmp/logs-private/keys.log'', File \<lparr>content = ''private'', mtime = 1\<rparr>)],
      faults = (\<lambda>op p. False)\<rparr>"

text \<open>A world where the file can be read and its \<^verbatim>\<open>stat\<close> fails.\<close>

definition stat_fault_world :: world where
  "stat_fault_world = rotated_world\<lparr>faults := (\<lambda>op p. op = StatOp)\<rparr>"

text \<open>A run that selects the same filter twice, an empty one, and another widget.\<close>

definition filter_run :: "(int \<times> request) list" where
  "filter_run =
     [(0, Start ''abc'' ''agent'' ''::1''),
      (1, Interact (example_body\<lparr>req_widgetName := JString ''filterSelect'', req_value := JString ''blur''\<rparr>)),
      (2, Interact (example_body\<lparr>req_widgetName := JString ''filterSelect'', req_value := JString ''blur''\<rparr>)),
      (3, Interact (example_body\<lparr>req_widgetName := JString ''filterSelect'', req_value := JString []\<rparr>)),
      (4, Interact (example_body\<lparr>req_widgetName := JString ''zoom'', req_value := JString ''in''\<rparr>)),
      (5, Interact (example_body\<lparr>req_widgetName := JString ''filterSelect'', req_value := JString ''sepia''\<rparr>))]"

text \<open>A run that sends the array \<^verbatim>\<open>["blur"]\<close> twice as the filter, then the empty array.\<close>

definition array_run :: "(int \<times> request) list" where
  "array_run =
     [(0, Start ''abc'' ''agent'' ''::1''),
      (1, Interact (example_body\<lparr>req_widgetName := JString ''filterSelect'',
                                  req_value := JArray [JString ''blur'']\<rparr>)),
      (2, Interact (example_body\<lparr>req_widgetName := JString ''filterSelect'',
                                  req_value := JArray [JString ''blur'']\<rparr>)),
      (3, Interact (example_body\<lparr>req_widgetName := JString ''filterSelect'', req_value := JArray []\<rparr>))]"

text \<open>A run that starts a session and ends it ten seconds later.\<close>

definition end_run :: "(int \<times> request) list" where
  "end_run = [(0, Start ''abc'' ''agent'' ''::1''), (10000, End example_body)]"

section \<open>Auxiliary facts\<close>

lemmas handler_defs =
  index_detection_record_def index_interaction_record_def index_session_end_def
  server_detection_record_def server_interaction_record_def server_session_end_def
  validateSession_index_def validateSession_server_def

lemmas example_defs =
  example_env_def empty_body_def initial_stats_def empty_world_def example_id_def
  example_session_def example_stats_def closed_session_def closed_stats_def example_body_def

lemma Map_get_mutate:
  "Map_get (Map_mutate k f m) k' = (if k' = k then map_option f (Map_get m k) else Map_get m k')"
  by (auto simp: Map_get_def Map_mutate_def map_of_map_entry split: jsval.splits option.splits)

lemma Map_has_get: "Map_get m k = Some v \<Longrightarrow> Map_has m k"
  by (simp add: Map_has_def)

lemmas path_defs =
  path_join_def path_normalize_def normalizeString_def push_segment_def
  path_resolve_def basename_def startsWith_def endsWith_def

lemmas fs_defs =
  existsSync_def statSync_def renameSync_def appendFileSync_def readFileSync_def
  readdirSync_def fsize_def

lemma decimal_eval: "decimal 0 = ''0''" "decimal 5 = ''5''"
  by (simp_all add: decimal_def digits_of.simps)

lemma example_id_eval: "new_sessionId 0 ''abc'' = ''session_0_abc''"
  by (simp add: new_sessionId_def decimal_eval)

subsection \<open>Numbers\<close>

text \<open>An integer below \<open>2^53\<close> in absolute value is a double.\<close>

lemma round_to_double_small: "n < 2 ^ 53 \<Longrightarrow> round_to_double n = Some n"
proof -
  have "(2::nat) ^ 53 < 2 ^ 1024 - 2 ^ 970" by simp
  then show "n < 2 ^ 53 \<Longrightarrow> round_to_double n = Some n"
    by (simp add: round_to_double_def)
qed

lemma to_double_small: "\<bar>i\<bar> < 2 ^ 53 \<Longrightarrow> to_double i = Num i"
proof -
  assume "\<bar>i\<bar> < 2 ^ 53"
  then have "nat \<bar>i\<bar> < 2 ^ 53"
    by (simp add: nat_less_iff)
  then have "round_to_double (nat \<bar>i\<bar>) = Some (nat \<bar>i\<bar>)"
    by (rule round_to_double_small)
  then show ?thesis by (simp add: to_double_def)
qed

text \<open>Above \<open>2^53\<close> a sum is rounded to the nearest double, a tie to the even significand.\<close>

lemma rounding_examples:
  "jsadd (Num (2 ^ 53)) (Num 1) = Num (2 ^ 53)"
  "jsadd (Num (2 ^ 53)) (Num 3) = Num (2 ^ 53 + 4)"
  by (simp_all add: to_double_def round_to_double_def bit_length.simps Let_def)

lemma parse_examples:
  "parseInt_string ''many'' = NaN" "parseInt_string ''3'' = Num 3"
  "parseInt_string ''-5'' = Num (- 5)" "parseInt_string ''2'' = Num 2"
  "parseInt_string ''0'' = Num 0"
  by (simp_all add: parseInt_string_def skip_space.simps space_prefix_def digit_of_def Let_def
        to_double_small)

text \<open>
  \<open>parseInt\<close> reads the text of a number: \<^verbatim>\<open>parseInt(2.7)\<close> is 2 and \<^verbatim>\<open>parseInt(1e21)\<close> is 1.
  A no-break space (U+00A0) before the digits is skipped.
\<close>

lemma parse_number_text:
  "parseInt (JNumber ''2.7'') = Some (Num 2)" "parseInt (JNumber ''1e+21'') = Some (Num 1)"
  "parseInt (JString [CHR 0xC2, CHR 0xA0, CHR ''7'']) = Some (Num 7)"
  "parseInt (JArray [JString ''4'', JString ''5'']) = Some (Num 4)"
  "parseInt (JObject [(''toString'', JNull)]) = None"
  by (simp_all add: parseInt_def parseInt_string_def skip_space.simps space_prefix_def digit_of_def
        Let_def to_double_small)

lemma read_nines:
  "read_digits 10 (replicate n CHR ''9'') (Some a) = Some (a * 10 ^ n + (10 ^ n - 1))"
proof (induction n arbitrary: a)
  case 0
  then show ?case by simp
next
  case (Suc n)
  have "digit_of 10 CHR ''9'' = Some 9"
    by (simp add: digit_of_def)
  then show ?case
    using Suc[of "a * 10 + 9"] by (simp add: algebra_simps)
qed

lemma huge_count_unfold:
  "huge_count = CHR ''9'' # CHR ''9'' # CHR ''9'' # replicate 307 CHR ''9''"
proof -
  have "(310::nat) = Suc (Suc (Suc 307))" by simp
  then show ?thesis
    unfolding huge_count_def by (metis replicate_Suc)
qed

lemma huge_count_digits: "read_digits 10 huge_count None = Some (10 ^ 310 - 1)"
proof -
  have d: "digit_of 10 CHR ''9'' = Some 9"
    by (simp add: digit_of_def)
  have "(310::nat) = Suc 309" by simp
  then have u: "huge_count = CHR ''9'' # replicate 309 CHR ''9''"
    unfolding huge_count_def by (metis replicate_Suc)
  have "read_digits 10 (CHR ''9'' # replicate 309 CHR ''9'') None =
      read_digits 10 (replicate 309 CHR ''9'') (Some 9)"
    by (simp add: d)
  then have "read_digits 10 huge_count None = read_digits 10 (replicate 309 CHR ''9'') (Some 9)"
    by (simp only: u)
  also have "\<dots> = Some (9 * 10 ^ 309 + (10 ^ 309 - 1))"
    by (rule read_nines)
  also have "\<dots> = Some (10 ^ 310 - 1)"
    by simp
  finally show ?thesis .
qed

text \<open>A run of 310 digits is beyond the range of a double: \<open>parseInt\<close> gives an infinity.\<close>

lemma huge_count_parse:
  "parseInt_string huge_count = PosInf"
  "parseInt_string (CHR ''-'' # huge_count) = NegInf"
proof -
  have s: "skip_space huge_count = huge_count"
    "skip_space (CHR ''-'' # huge_count) = CHR ''-'' # huge_count"
    by (simp_all add: skip_space.simps space_prefix_def huge_count_unfold)
  have h: "hd huge_count = CHR ''9''" "huge_count \<noteq> []" "take 2 huge_count = ''99''"
    by (simp_all add: huge_count_unfold)
  show "parseInt_string huge_count = PosInf"
    by (simp add: parseInt_string_def s h huge_count_digits Let_def to_double_def round_to_double_def)
  show "parseInt_string (CHR ''-'' # huge_count) = NegInf"
    by (simp add: parseInt_string_def s h huge_count_digits Let_def to_double_def round_to_double_def)
qed

subsection \<open>The session store\<close>

lemma example_closed:
  "fst (snd (index_session_end example_env empty_world example_stats 10000 example_body)) = closed_stats"
  by (simp add: handler_defs example_defs Let_def Map_get_def Map_has_def Map_mutate_def
      close_session_def round_div_def)

lemma list_all_map_entry:
  "list_all P (map snd m) \<Longrightarrow> P v \<Longrightarrow> list_all P (map snd (AList.map_entry k (\<lambda>_. v) m))"
  by (induction m) auto

lemma list_all_update:
  "list_all P (map snd m) \<Longrightarrow> P v \<Longrightarrow> list_all P (map snd (AList.update k v m))"
  by (induction m) auto

lemma list_all_delete:
  "list_all P (map snd m) \<Longrightarrow> list_all P (map snd (AList.delete k m))"
  by (induction m) auto

lemma list_all_Map_mutate:
  "list_all P (Map_values m) \<Longrightarrow> P v \<Longrightarrow> list_all P (Map_values (Map_mutate k (\<lambda>_. v) m))"
  by (simp add: Map_values_def Map_mutate_def list_all_map_entry split: jsval.splits)

lemma list_all_Map_set:
  "list_all P (Map_values m) \<Longrightarrow> P v \<Longrightarrow> list_all P (Map_values (Map_set k v m))"
  by (simp add: Map_values_def Map_set_def list_all_update)

lemma list_all_Map_delete_key:
  "list_all P (Map_values m) \<Longrightarrow> list_all P (Map_values (Map_delete_key k m))"
  by (simp add: Map_values_def Map_delete_key_def Map_delete_def list_all_delete split: jsval.splits)

lemma list_all_foldl_fire:
  "list_all P (Map_values (sessions st)) \<Longrightarrow> list_all P (Map_values (sessions (foldl fire st ts)))"
  by (induction ts arbitrary: st) (auto simp: fire_def list_all_Map_delete_key)

lemma Map_get_values: "Map_get m k = Some v \<Longrightarrow> list_all P (Map_values m) \<Longrightarrow> P v"
  by (auto simp: Map_get_def Map_values_def list_all_iff split: jsval.splits dest!: map_of_SomeD)

subsection \<open>Paths\<close>

lemma split_on_nonempty: "split_on c xs \<noteq> []"
  by (induction xs) (auto split: list.splits)



















text \<open>The joins and the resolved root of the examples.\<close>

lemma join_examples:
  "path_join [''/tmp/logs'', ''../../etc/passwd''] = ''/etc/passwd''"
  "path_join [''/tmp/logs'', ''/etc/passwd''] = ''/tmp/logs/etc/passwd''"
  "path_join [''/tmp/logs'', ''etc/passwd''] = ''/tmp/logs/etc/passwd''"
  "path_join [''/tmp/logs'', ''../logs.log''] = ''/tmp/logs.log''"
  "path_join [''/tmp/logs'', ''../logs-private/keys.log''] = ''/tmp/logs-private/keys.log''"
  "path_join [''/tmp/logs'', ''missing.log''] = ''/tmp/logs/missing.log''"
  "path_join [''/tmp/logs'', ''SESSION_START_1970-01-01_5.log.backup''] =
     ''/tmp/logs/SESSION_START_1970-01-01_5.log.backup''"
  "path_join [''/tmp/logs'', ''SESSION_START_1970-01-01.log''] =
     ''/tmp/logs/SESSION_START_1970-01-01.log''"
  "path_join [''/tmp/logs'', ''archive.log''] = ''/tmp/logs/archive.log''"
  "path_resolve ''/app'' ''/tmp/logs'' = ''/tmp/logs''"
  by (simp_all add: path_defs)

section \<open>Validation errors\<close>

text \<open>
  \<^bold>\<open>C2\<close>, as the code has it.  In \<^verbatim>\<open>api/index.js\<close> and \<^verbatim>\<open>api/server.js\<close>, the record-detection,
  record-interaction and end-session handlers answer a request whose \<open>sessionId\<close> is missing
  (or otherwise falsy) with status 400, and one whose \<open>sessionId\<close> is not a key of the session
  store with status 404.  In the minimal serverless copy the middleware in front of the three
  handlers answers 400 in both cases.  In all three files the statistics, the sessions, the
  server's timers and the log files are returned as they were, and the response is not a
  success.
\<close>

theorem missing_or_unknown_session_rejected:
  "(\<not> truthy (req_sessionId req) \<longrightarrow>
      index_detection_record E w st now req = (Failure 400, st, w) \<and>
      index_interaction_record E w st now req = (Failure 400, st, w) \<and>
      index_session_end E w st now req = (Failure 400, st, w) \<and>
      server_detection_record E w st now req = (Failure 400, st, w) \<and>
      server_interaction_record E w st now req = (Failure 400, st, w) \<and>
      server_session_end E w ss now req = (Failure 400, ss, w)) \<and>
   (truthy (req_sessionId req) \<and> \<not> Map_has (sessions st) (req_sessionId req) \<longrightarrow>
      index_detection_record E w st now req = (Failure 404, st, w) \<and>
      index_interaction_record E w st now req = (Failure 404, st, w) \<and>
      index_session_end E w st now req = (Failure 404, st, w) \<and>
      server_detection_record E w st now req = (Failure 404, st, w) \<and>
      server_interaction_record E w st now req = (Failure 404, st, w)) \<and>
   (truthy (req_sessionId req) \<and> \<not> Map_has (sessions (sstats ss)) (req_sessionId req) \<longrightarrow>
      server_session_end E w ss now req = (Failure 404, ss, w)) \<and>
   (\<not> truthy (req_sessionId req) \<or> \<not> Map_has (sessions st) (req_sessionId req) \<longrightarrow>
      validateSession_minimal st req = Some (Failure 400) \<and>
      behind (validateSession_minimal st req) st w handler = (Failure 400, st, w)) \<and>
   truthy JUndefined = False \<and>
   status (Failure 400) = 400 \<and> \<not> success (Failure 400) \<and>
   status (Failure 404) = 404 \<and> \<not> success (Failure 404)"
  by (simp add: handler_defs validateSession_minimal_def behind_def Let_def)

theorem missing_or_unknown_session_rejected_witness:
  "req_sessionId empty_body = JUndefined \<and>
   index_detection_record example_env empty_world example_stats 5 empty_body =
     (Failure 400, example_stats, empty_world) \<and>
   server_session_end example_env empty_world \<lparr>sstats = example_stats, timers = []\<rparr> 5 empty_body =
     (Failure 400, \<lparr>sstats = example_stats, timers = []\<rparr>, empty_world) \<and>
   behind (validateSession_minimal example_stats empty_body) example_stats empty_world
       (index_session_end example_env empty_world example_stats 5 empty_body) =
     (Failure 400, example_stats, empty_world) \<and>
   \<not> Map_has (sessions example_stats) (JString ''session_9_zzz'') \<and>
   index_interaction_record example_env empty_world example_stats 5
       (empty_body\<lparr>req_sessionId := JString ''session_9_zzz''\<rparr>) =
     (Failure 404, example_stats, empty_world) \<and>
   server_session_end example_env empty_world \<lparr>sstats = example_stats, timers = []\<rparr> 5
       (empty_body\<lparr>req_sessionId := JString ''session_9_zzz''\<rparr>) =
     (Failure 404, \<lparr>sstats = example_stats, timers = []\<rparr>, empty_world)"
proof -
  have absent: "\<not> Map_has (sessions example_stats) (JString ''session_9_zzz'')"
    by (simp add: Map_has_def Map_get_def example_stats_def example_id_def)
  have missing: "req_sessionId empty_body = JUndefined"
    by (simp add: empty_body_def)
  show ?thesis
    using absent missing
      missing_or_unknown_session_rejected
        [where req = empty_body and E = example_env and w = empty_world and st = example_stats
           and now = 5 and ss = "\<lparr>sstats = example_stats, timers = []\<rparr>"
           and handler = "index_session_end example_env empty_world example_stats 5 empty_body"]
      missing_or_unknown_session_rejected
        [where req = "empty_body\<lparr>req_sessionId := JString ''session_9_zzz''\<rparr>"
           and E = example_env and w = empty_world and st = example_stats
           and now = 5 and ss = "\<lparr>sstats = example_stats, timers = []\<rparr>"
           and handler = "(Failure 404, example_stats, empty_world)"]
    by (simp add: behind_def)
qed

text \<open>
  The claim as it is written fails on the minimal serverless copy: a request for a session that
  is not in the store is answered 400 there, not 404, whatever handler stands behind the
  middleware.
\<close>

theorem unknown_session_answered_400:
  "truthy (JString ''session_9_zzz'') \<and>
   \<not> Map_has (sessions example_stats) (JString ''session_9_zzz'') \<and>
   validateSession_minimal example_stats (empty_body\<lparr>req_sessionId := JString ''session_9_zzz''\<rparr>) =
     Some (Failure 400) \<and>
   behind (validateSession_minimal example_stats (empty_body\<lparr>req_sessionId := JString ''session_9_zzz''\<rparr>))
       example_stats empty_world
       (index_session_end example_env empty_world example_stats 5
          (empty_body\<lparr>req_sessionId := JString ''session_9_zzz''\<rparr>)) =
     (Failure 400, example_stats, empty_world) \<and>
   status (Failure 400) \<noteq> 404"
  by (simp add: validateSession_minimal_def behind_def Let_def Map_has_def Map_get_def
      example_stats_def example_id_def empty_body_def)

section \<open>Closed sessions\<close>

text \<open>
  \<^bold>\<open>C1\<close>, as the code has it.  The detection and interaction handlers test that the session is
  a key of the store and nothing else: whenever it is, open or closed, they update its counters,
  its filter list and \<open>lastActivity\<close>, and leave \<open>endTime\<close> and \<open>duration\<close> as they are.  A closed
  session that has not been removed is therefore not read-only.  (A count that cannot be
  converted to a string stops the detection handler where the conversion is made.)
\<close>

theorem closed_session_still_mutated:
  assumes "truthy (req_sessionId req)" and "Map_get (sessions st) (req_sessionId req) = Some s"
  shows "Map_get (sessions (fst (snd (index_detection_record E w st now req)))) (req_sessionId req) =
           Some (case parseInt (faceCount_of req) of
                   None \<Rightarrow> s
                 | Some parsedFace \<Rightarrow>
                     (case parseInt (objectCount_of req) of
                        None \<Rightarrow> s
                      | Some parsedObject \<Rightarrow>
                          s\<lparr>faceDetections := jsadd (faceDetections s) (or_zero parsedFace),
                            objectDetections := jsadd (objectDetections s) (or_zero parsedObject),
                            lastActivity := now\<rparr>))
       \<and> Map_get (sessions (fst (snd (index_interaction_record E w st now req)))) (req_sessionId req) =
           Some (s\<lparr>interactions := interactions s + 1, lastActivity := now,
                   filters := push_filter (req_widgetName req) (req_value req) (filters s)\<rparr>)
       \<and> Map_get (sessions (fst (snd (server_detection_record E w st now req)))) (req_sessionId req) =
           Some (case parseInt (faceCount_of req) of
                   None \<Rightarrow> s
                 | Some parsedFace \<Rightarrow>
                     (case parseInt (objectCount_of req) of
                        None \<Rightarrow> s\<lparr>faceDetections := jsadd (faceDetections s) parsedFace\<rparr>
                      | Some parsedObject \<Rightarrow>
                          s\<lparr>faceDetections := jsadd (faceDetections s) parsedFace,
                            objectDetections := jsadd (objectDetections s) parsedObject,
                            lastActivity := now\<rparr>))
       \<and> Map_get (sessions (fst (snd (server_interaction_record E w st now req)))) (req_sessionId req) =
           Some (s\<lparr>interactions := interactions s + 1, lastActivity := now,
                   filters := push_filter (req_widgetName req) (req_value req) (filters s)\<rparr>)"
  using assms Map_has_get[OF assms(2)]
  by (simp add: handler_defs Let_def Map_get_mutate split: option.splits)

theorem closed_session_still_mutated_witness:
  "truthy (req_sessionId example_body) \<and>
   Map_get (sessions closed_stats) (req_sessionId example_body) = Some closed_session \<and>
   endTime closed_session = Some 10000 \<and>
   Map_get (sessions (fst (snd (index_interaction_record example_env empty_world closed_stats 20000
       example_body)))) (req_sessionId example_body) =
     Some (closed_session\<lparr>interactions := 1, lastActivity := 20000\<rparr>)"
proof -
  have present: "Map_get (sessions closed_stats) (req_sessionId example_body) = Some closed_session"
    by (simp add: Map_get_def example_defs)
  have given: "truthy (req_sessionId example_body)"
    by (simp add: example_defs)
  have closed: "endTime closed_session = Some 10000" "interactions closed_session = 0"
    "push_filter (req_widgetName example_body) (req_value example_body) (filters closed_session)
       = filters closed_session"
    by (simp_all add: example_defs push_filter_def)
  show ?thesis
    using closed_session_still_mutated[OF given present, of example_env empty_world 20000]
      present given closed
    by simp
qed

text \<open>
  The claim as it is written fails: a session closed at 10000 takes an interaction at 20000 (its
  counter goes from 0 to 1, its filter list from empty to one value), and a detection.
\<close>

theorem closed_session_read_only_counterexample:
  "endTime closed_session \<noteq> None \<and>
   Map_get (sessions closed_stats) (JString example_id) = Some closed_session \<and>
   interactions closed_session = 0 \<and> filters closed_session = [] \<and>
   faceDetections closed_session = Num 0 \<and>
   map_option (\<lambda>s. (interactions s, filters s))
     (Map_get (sessions (fst (snd (index_interaction_record example_env empty_world closed_stats 20000
        (example_body\<lparr>req_widgetName := JString ''filterSelect'', req_value := JString ''blur''\<rparr>)))))
        (JString example_id)) = Some (1, [JString ''blur'']) \<and>
   map_option faceDetections
     (Map_get (sessions (fst (snd (server_detection_record example_env empty_world closed_stats 20000
        (example_body\<lparr>req_faceCount := JNumber ''2''\<rparr>)))))
        (JString example_id)) = Some (Num 2)"
  by (simp add: handler_defs example_defs Let_def Map_mutate_def Map_get_def Map_has_def
      push_filter_def Array_includes_def faceCount_of_def objectCount_of_def default_to_def
      parseInt_def parse_examples to_double_small)

section \<open>Detection counts\<close>

text \<open>\<^verbatim>\<open>n || 0\<close> replaces \<open>NaN\<close> by 0 and keeps every other number.\<close>

lemma or_zero_cases: "or_zero n \<noteq> NaN \<and> (n = NaN \<longrightarrow> or_zero n = Num 0) \<and> (n \<noteq> NaN \<longrightarrow> or_zero n = n)"
  by (cases n) (simp_all add: or_zero_def)

text \<open>
  \<^bold>\<open>C3\<close>, as the code has it.  In \<^verbatim>\<open>api/index.js\<close> the deltas of a detection on a session of the
  store are \<^verbatim>\<open>parseInt(faceCount) || 0\<close> and \<^verbatim>\<open>parseInt(objectCount) || 0\<close>: a count that
  \<open>parseInt\<close> does not read as a number (\<open>NaN\<close>) is counted as 0, and every other result of
  \<open>parseInt\<close> is added as it is, negative or infinite as it may be.  The session's and the global
  counters receive the same deltas.  A count that cannot be converted to a string ends the
  request with status 500 before anything is added.  \<^verbatim>\<open>api/server.js\<close> adds the same numbers
  when neither count parses to \<open>NaN\<close>.
\<close>

theorem detection_adds_parse_results:
  assumes "truthy (req_sessionId req)" and "Map_get (sessions st) (req_sessionId req) = Some s"
  shows "(\<forall>f obj. parseInt (faceCount_of req) = Some f \<and> parseInt (objectCount_of req) = Some obj \<longrightarrow>
            Map_get (sessions (fst (snd (index_detection_record E w st now req)))) (req_sessionId req) =
              Some (s\<lparr>faceDetections := jsadd (faceDetections s) (or_zero f),
                      objectDetections := jsadd (objectDetections s) (or_zero obj),
                      lastActivity := now\<rparr>)
            \<and> totalFaceDetections (fst (snd (index_detection_record E w st now req))) =
                jsadd (totalFaceDetections st) (or_zero f)
            \<and> totalDetections (fst (snd (index_detection_record E w st now req))) =
                jsadd (totalDetections st) (jsadd (or_zero f) (or_zero obj))
            \<and> success (fst (index_detection_record E w st now req))
            \<and> or_zero f \<noteq> NaN \<and> (f = NaN \<longrightarrow> or_zero f = Num 0) \<and> (f \<noteq> NaN \<longrightarrow> or_zero f = f)
            \<and> or_zero obj \<noteq> NaN \<and> (obj = NaN \<longrightarrow> or_zero obj = Num 0) \<and> (obj \<noteq> NaN \<longrightarrow> or_zero obj = obj)
            \<and> (f \<noteq> NaN \<and> obj \<noteq> NaN \<longrightarrow>
                 Map_get (sessions (fst (snd (server_detection_record E w st now req)))) (req_sessionId req) =
                   Some (s\<lparr>faceDetections := jsadd (faceDetections s) (or_zero f),
                           objectDetections := jsadd (objectDetections s) (or_zero obj),
                           lastActivity := now\<rparr>)
                 \<and> totalFaceDetections (fst (snd (server_detection_record E w st now req))) =
                     jsadd (totalFaceDetections st) (or_zero f)
                 \<and> totalDetections (fst (snd (server_detection_record E w st now req))) =
                     jsadd (totalDetections st) (jsadd (or_zero f) (or_zero obj))))
       \<and> (parseInt (faceCount_of req) = None \<or> parseInt (objectCount_of req) = None \<longrightarrow>
            index_detection_record E w st now req = (Failure 500, st, w))"
proof -
  have has: "Map_has (sessions st) (req_sessionId req)"
    using assms(2) by (rule Map_has_get)
  have thrown: "index_detection_record E w st now req = (Failure 500, st, w)"
    if "parseInt (faceCount_of req) = None \<or> parseInt (objectCount_of req) = None"
    using that assms has by (auto simp: handler_defs Let_def split: option.splits)
  have added: "Map_get (sessions (fst (snd (index_detection_record E w st now req)))) (req_sessionId req) =
              Some (s\<lparr>faceDetections := jsadd (faceDetections s) (or_zero f),
                      objectDetections := jsadd (objectDetections s) (or_zero obj),
                      lastActivity := now\<rparr>)
            \<and> totalFaceDetections (fst (snd (index_detection_record E w st now req))) =
                jsadd (totalFaceDetections st) (or_zero f)
            \<and> totalDetections (fst (snd (index_detection_record E w st now req))) =
                jsadd (totalDetections st) (jsadd (or_zero f) (or_zero obj))
            \<and> success (fst (index_detection_record E w st now req))"
    if "parseInt (faceCount_of req) = Some f" and "parseInt (objectCount_of req) = Some obj" for f obj
    using that assms has by (simp add: handler_defs Let_def Map_get_mutate)
  have server: "Map_get (sessions (fst (snd (server_detection_record E w st now req)))) (req_sessionId req) =
                   Some (s\<lparr>faceDetections := jsadd (faceDetections s) (or_zero f),
                           objectDetections := jsadd (objectDetections s) (or_zero obj),
                           lastActivity := now\<rparr>)
                 \<and> totalFaceDetections (fst (snd (server_detection_record E w st now req))) =
                     jsadd (totalFaceDetections st) (or_zero f)
                 \<and> totalDetections (fst (snd (server_detection_record E w st now req))) =
                     jsadd (totalDetections st) (jsadd (or_zero f) (or_zero obj))"
    if "parseInt (faceCount_of req) = Some f" and "parseInt (objectCount_of req) = Some obj"
      and "f \<noteq> NaN" and "obj \<noteq> NaN" for f obj
  proof -
    from that(3,4) have "or_zero f = f" "or_zero obj = obj"
      using or_zero_cases by blast+
    then show ?thesis
      using that(1,2) assms has by (simp add: handler_defs Let_def Map_get_mutate)
  qed
  show ?thesis
    using thrown added server or_zero_cases by blast
qed

theorem detection_adds_parse_results_witness:
  "truthy (req_sessionId example_body) \<and>
   Map_get (sessions example_stats)
     (req_sessionId (example_body\<lparr>req_faceCount := JString ''many'', req_objectCount := JString ''3''\<rparr>)) =
     Some example_session \<and>
   parseInt (faceCount_of (example_body\<lparr>req_faceCount := JString ''many'', req_objectCount := JString ''3''\<rparr>)) = Some NaN \<and>
   parseInt (objectCount_of (example_body\<lparr>req_faceCount := JString ''many'', req_objectCount := JString ''3''\<rparr>)) = Some (Num 3) \<and>
   Map_get (sessions (fst (snd (index_detection_record example_env empty_world example_stats 1000
       (example_body\<lparr>req_faceCount := JString ''many'', req_objectCount := JString ''3''\<rparr>)))))
     (JString example_id) =
     Some (example_session\<lparr>faceDetections := Num 0, objectDetections := Num 3, lastActivity := 1000\<rparr>) \<and>
   totalDetections (fst (snd (index_detection_record example_env empty_world example_stats 1000
       (example_body\<lparr>req_faceCount := JString ''many'', req_objectCount := JString ''3''\<rparr>)))) = Num 3 \<and>
   parseInt (faceCount_of (example_body\<lparr>req_faceCount := JObject [(''toString'', JNull)]\<rparr>)) = None \<and>
   index_detection_record example_env empty_world example_stats 1000
       (example_body\<lparr>req_faceCount := JObject [(''toString'', JNull)]\<rparr>) =
     (Failure 500, example_stats, empty_world) \<and>
   parseInt (faceCount_of (example_body\<lparr>req_faceCount := JNumber ''2'', req_objectCount := JString ''3''\<rparr>)) = Some (Num 2) \<and>
   Map_get (sessions (fst (snd (server_detection_record example_env empty_world example_stats 1000
       (example_body\<lparr>req_faceCount := JNumber ''2'', req_objectCount := JString ''3''\<rparr>)))))
     (JString example_id) =
     Some (example_session\<lparr>faceDetections := Num 2, objectDetections := Num 3, lastActivity := 1000\<rparr>) \<and>
   totalDetections (fst (snd (server_detection_record example_env empty_world example_stats 1000
       (example_body\<lparr>req_faceCount := JNumber ''2'', req_objectCount := JString ''3''\<rparr>)))) = Num 5"
proof -
  let ?req = "example_body\<lparr>req_faceCount := JString ''many'', req_objectCount := JString ''3''\<rparr>"
  let ?bad = "example_body\<lparr>req_faceCount := JObject [(''toString'', JNull)]\<rparr>"
  let ?both = "example_body\<lparr>req_faceCount := JNumber ''2'', req_objectCount := JString ''3''\<rparr>"
  have given: "truthy (req_sessionId ?req)" "req_sessionId ?req = JString example_id"
    "truthy (req_sessionId ?bad)" "truthy (req_sessionId ?both)"
    "req_sessionId ?both = JString example_id"
    by (simp_all add: example_defs)
  have present: "Map_get (sessions example_stats) (req_sessionId ?req) = Some example_session"
    "Map_get (sessions example_stats) (req_sessionId ?bad) = Some example_session"
    "Map_get (sessions example_stats) (req_sessionId ?both) = Some example_session"
    by (simp_all add: Map_get_def example_defs)
  have parsed: "parseInt (faceCount_of ?req) = Some NaN" "parseInt (objectCount_of ?req) = Some (Num 3)"
    "parseInt (faceCount_of ?bad) = None"
    "parseInt (faceCount_of ?both) = Some (Num 2)" "parseInt (objectCount_of ?both) = Some (Num 3)"
    by (simp_all add: faceCount_of_def objectCount_of_def default_to_def parseInt_def parse_examples)
  have start: "faceDetections example_session = Num 0" "objectDetections example_session = Num 0"
    "totalDetections example_stats = Num 0"
    by (simp_all add: example_defs)
  have sums: "jsadd (Num 0) (or_zero NaN) = Num 0" "jsadd (Num 0) (or_zero (Num 3)) = Num 3"
    "jsadd (Num 0) (jsadd (or_zero NaN) (or_zero (Num 3))) = Num 3"
    "jsadd (Num 0) (or_zero (Num 2)) = Num 2"
    "jsadd (Num 0) (jsadd (or_zero (Num 2)) (or_zero (Num 3))) = Num 5"
    by (simp_all add: or_zero_def to_double_small)
  show ?thesis
    using detection_adds_parse_results[OF given(1) present(1), of example_env empty_world 1000]
      detection_adds_parse_results[OF given(3) present(2), of example_env empty_world 1000]
      detection_adds_parse_results[OF given(4) present(3), of example_env empty_world 1000]
      given present parsed start sums
    by simp
qed

text \<open>
  The claim as it is written fails on a negative count: \<^verbatim>\<open>{ faceCount: -5 }\<close> takes the
  session's and the global face counter from 0 to \<open>-5\<close>.  It fails on counts beyond the range
  of a double too: a \<open>faceCount\<close> of 310 digits with the negative of it as \<open>objectCount\<close> is
  \<open>+\<infinity>\<close> and \<open>-\<infinity>\<close>, both kept by \<^verbatim>\<open>|| 0\<close>, and their sum turns \<open>totalDetections\<close> into \<open>NaN\<close>.
\<close>

theorem negative_count_decreases_counter:
  "faceDetections example_session = Num 0 \<and> totalFaceDetections example_stats = Num 0 \<and>
   totalDetections example_stats = Num 0 \<and>
   map_option faceDetections
     (Map_get (sessions (fst (snd (index_detection_record example_env empty_world example_stats 1000
        (example_body\<lparr>req_faceCount := JNumber ''-5''\<rparr>)))))
        (JString example_id)) = Some (Num (- 5)) \<and>
   totalFaceDetections (fst (snd (index_detection_record example_env empty_world example_stats 1000
        (example_body\<lparr>req_faceCount := JNumber ''-5''\<rparr>)))) = Num (- 5) \<and>
   totalDetections (fst (snd (index_detection_record example_env empty_world example_stats 1000
        (example_body\<lparr>req_faceCount := JNumber ''-5''\<rparr>)))) = Num (- 5) \<and>
   map_option (\<lambda>s. (faceDetections s, objectDetections s))
     (Map_get (sessions (fst (snd (index_detection_record example_env empty_world example_stats 1000
        huge_body)))) (JString example_id)) = Some (PosInf, NegInf) \<and>
   totalDetections (fst (snd (index_detection_record example_env empty_world example_stats 1000
        huge_body))) = NaN"
  by (simp add: handler_defs example_defs huge_body_def Let_def Map_mutate_def Map_get_def Map_has_def
      faceCount_of_def objectCount_of_def default_to_def or_zero_def parseInt_def parse_examples
      huge_count_parse to_double_small)

text \<open>
  In \<^verbatim>\<open>api/server.js\<close> the sums are taken without \<^verbatim>\<open>|| 0\<close>: one count that does not parse
  turns the session's counter and the global counters into \<open>NaN\<close>.
\<close>

lemma server_detection_not_a_number:
  "map_option faceDetections
     (Map_get (sessions (fst (snd (server_detection_record example_env empty_world example_stats 1000
        (example_body\<lparr>req_faceCount := JString ''many''\<rparr>)))))
        (JString example_id)) = Some NaN \<and>
   totalDetections (fst (snd (server_detection_record example_env empty_world example_stats 1000
        (example_body\<lparr>req_faceCount := JString ''many''\<rparr>)))) = NaN"
  by (simp add: handler_defs example_defs Let_def Map_mutate_def Map_get_def Map_has_def
      faceCount_of_def objectCount_of_def default_to_def parseInt_def parse_examples)

section \<open>Eviction\<close>

lemma Map_has_mutate [simp]: "Map_has (Map_mutate k f m) k' = Map_has m k'"
  by (simp add: Map_has_def Map_get_mutate)

lemma Map_has_set: "Map_has (Map_set k v m) k' = (k' = JString k \<or> Map_has m k')"
  by (auto simp: Map_has_def Map_get_def Map_set_def update_conv' split: jsval.splits)

lemma Map_has_delete_key: "Map_has (Map_delete_key k m) k' = (Map_has m k' \<and> k' \<noteq> k)"
  by (auto simp: Map_has_def Map_get_def Map_delete_key_def Map_delete_def delete_conv'
      split: jsval.splits)

lemma Map_has_foldl_fire:
  "Map_has (sessions (foldl fire st ts)) k = (Map_has (sessions st) k \<and> k \<notin> snd ` set ts)"
  by (induction ts arbitrary: st) (auto simp: fire_def Map_has_delete_key)

text \<open>A timer's callback touches \<^verbatim>\<open>stats.sessions\<close> and nothing else.\<close>

lemma foldl_fire_frame: "\<exists>m. foldl fire st ts = st\<lparr>sessions := m\<rparr>"
proof (induction ts arbitrary: st)
  case Nil
  have "st = st\<lparr>sessions := sessions st\<rparr>" by simp
  then show ?case by (metis foldl_Nil)
next
  case (Cons t ts)
  from Cons[of "fire st t"] obtain m where "foldl fire (fire st t) ts = (fire st t)\<lparr>sessions := m\<rparr>"
    by blast
  moreover have "(fire st t)\<lparr>sessions := m\<rparr> = st\<lparr>sessions := m\<rparr>"
    by (simp add: fire_def)
  ultimately have "foldl fire st (t # ts) = st\<lparr>sessions := m\<rparr>"
    by simp
  then show ?case by blast
qed

lemma foldl_fire_sessions_only: "foldl fire st ts = st\<lparr>sessions := sessions (foldl fire st ts)\<rparr>"
proof -
  obtain m where m: "foldl fire st ts = st\<lparr>sessions := m\<rparr>"
    using foldl_fire_frame by blast
  then have "sessions (foldl fire st ts) = m" by simp
  with m show ?thesis by simp
qed

lemma run_timers_pending:
  "evicted_or_pending k due ss \<Longrightarrow> evicted_or_pending k due (run_timers now ss)"
  by (force simp: evicted_or_pending_def run_timers_def Map_has_foldl_fire)

lemma run_timers_due:
  "evicted_or_pending k due ss \<Longrightarrow> due \<le> now \<Longrightarrow>
   \<not> Map_has (sessions (sstats (run_timers now ss))) k"
  by (force simp: evicted_or_pending_def run_timers_def Map_has_foldl_fire)

lemma server_handle_pending:
  "evicted_or_pending k due ss \<Longrightarrow> \<not> starts k (now, r) \<Longrightarrow>
   evicted_or_pending k due (fst (snd (server_handle E w ss now r)))"
  by (cases r)
     (auto simp: evicted_or_pending_def server_handle_def lift_stats_def server_session_start_def
        handler_defs Let_def Map_has_set setTimeout_def split: option.splits)

lemma server_run_pending:
  "evicted_or_pending k due (fst sw) \<Longrightarrow> \<forall>ev \<in> set evs. \<not> starts k ev \<Longrightarrow>
   evicted_or_pending k due (fst (server_run E sw evs))"
proof (induction evs arbitrary: sw)
  case Nil
  then show ?case by simp
next
  case (Cons ev evs)
  obtain now r where ev: "ev = (now, r)" by (cases ev)
  from Cons.prems have "evicted_or_pending k due
      (fst (snd (server_handle E (snd sw) (run_timers now (fst sw)) now r)))"
    by (auto simp: ev intro!: server_handle_pending run_timers_pending)
  with Cons.IH[of "snd (server_handle E (snd sw) (run_timers now (fst sw)) now r)"] Cons.prems
  show ?case by (simp add: ev)
qed

lemma server_session_end_pending:
  "success (fst (server_session_end E w ss T req)) \<Longrightarrow>
   evicted_or_pending (req_sessionId req) (T + 60000) (fst (snd (server_session_end E w ss T req)))"
  by (auto simp: evicted_or_pending_def handler_defs Let_def setTimeout_def split: option.splits if_splits)

text \<open>No handler of \<^verbatim>\<open>api/index.js\<close> removes a key from the store.\<close>

lemma index_handle_keeps:
  "Map_has (sessions st) k \<Longrightarrow> Map_has (sessions (fst (snd (index_handle E w st now r)))) k"
  by (cases r)
     (auto simp: index_handle_def index_session_start_def handler_defs Let_def Map_has_set
        split: option.splits)

lemma index_run_keeps:
  "Map_has (sessions (fst sw)) k \<Longrightarrow> Map_has (sessions (fst (index_run E sw evs))) k"
  by (induction evs arbitrary: sw) (auto simp: index_handle_keeps)

text \<open>
  \<^bold>\<open>C4\<close>, as the code has it.  In \<^verbatim>\<open>api/server.js\<close> a session closed at time \<open>T\<close> by a successful
  end-session request has a timer due at \<open>T + 60000\<close> ms: whatever requests follow (none of them
  starting a session under the same identifier), once the timers due at a time \<open>t \<ge> T + 60000\<close>
  have run, the session is not a key of the store.  Running timers changes \<^verbatim>\<open>stats.sessions\<close>
  only: the four counters, \<open>totalSessions\<close> among them, keep their values.  \<^verbatim>\<open>api/index.js\<close> sets
  no timer and has no \<^verbatim>\<open>delete\<close>: there a closed session stays a key of the store.
\<close>

theorem eviction_by_timer_in_server_only:
  "(success (fst (server_session_end E w ss T req)) \<and>
    (\<forall>ev \<in> set evs. \<not> starts (req_sessionId req) ev) \<and> T + 60000 \<le> t \<longrightarrow>
      \<not> Map_has (sessions (sstats (run_timers t
            (fst (server_run E (snd (server_session_end E w ss T req)) evs))))) (req_sessionId req) \<and>
      Map_get (sessions (sstats (run_timers t
            (fst (server_run E (snd (server_session_end E w ss T req)) evs))))) (req_sessionId req) = None)
   \<and> counters (sstats (run_timers t ss)) = counters (sstats ss)
   \<and> sstats (run_timers t ss) = (sstats ss)\<lparr>sessions := sessions (sstats (run_timers t ss))\<rparr>
   \<and> (success (fst (index_session_end E w st T req)) \<longrightarrow>
        validateSession_index (fst (index_run E (snd (index_session_end E w st T req)) evs))
          (req_sessionId req))"
proof -
  have server: "\<not> Map_has (sessions (sstats (run_timers t
            (fst (server_run E (snd (server_session_end E w ss T req)) evs))))) (req_sessionId req)"
    if "success (fst (server_session_end E w ss T req))"
      and "\<forall>ev \<in> set evs. \<not> starts (req_sessionId req) ev" and "T + 60000 \<le> t"
    using that
    by (intro run_timers_due[where due = "T + 60000"] server_run_pending)
       (simp_all add: server_session_end_pending)
  have frame: "sstats (run_timers t ss) = (sstats ss)\<lparr>sessions := sessions (sstats (run_timers t ss))\<rparr>"
    using foldl_fire_sessions_only[of "sstats ss"] by (simp add: run_timers_def)
  have cnt: "counters (sstats (run_timers t ss)) = counters (sstats ss)"
    by (subst frame) (simp add: counters_def)
  have idx: "validateSession_index (fst (index_run E (snd (index_session_end E w st T req)) evs))
      (req_sessionId req)"
    if "success (fst (index_session_end E w st T req))"
  proof -
    from that have "Map_has (sessions (fst (snd (index_session_end E w st T req)))) (req_sessionId req)"
      by (auto simp: handler_defs Let_def split: option.splits if_splits)
    then show ?thesis
      unfolding validateSession_index_def by (rule index_run_keeps)
  qed
  show ?thesis
    using server frame cnt idx by (auto simp: Map_has_def)
qed

lemma server_end_example:
  "server_session_end example_env empty_world \<lparr>sstats = example_stats, timers = []\<rparr> 10000 example_body =
     (SessionEnded_server closed_session,
      \<lparr>sstats = closed_stats, timers = [(70000, JString example_id)]\<rparr>,
      snd (logToFile_server example_env empty_world 10000 ''SESSION_END''
             (session_end_log example_env 10000 (JString example_id) closed_session)))"
  by (simp add: handler_defs example_defs Let_def Map_get_def Map_has_def Map_mutate_def
      close_session_def round_div_def setTimeout_def)

theorem eviction_by_timer_in_server_only_witness:
  "success (fst (server_session_end example_env empty_world \<lparr>sstats = example_stats, timers = []\<rparr>
       10000 example_body)) \<and>
   \<not> starts (req_sessionId example_body) (20000, Interact example_body) \<and>
   (10000 :: int) + 60000 \<le> 70000 \<and>
   \<not> Map_has (sessions (sstats (run_timers 70000
        (fst (server_run example_env
               (snd (server_session_end example_env empty_world \<lparr>sstats = example_stats, timers = []\<rparr>
                  10000 example_body))
               [(20000, Interact example_body)]))))) (req_sessionId example_body) \<and>
   totalSessions (sstats (run_timers 70000 \<lparr>sstats = closed_stats, timers = [(70000, JString example_id)]\<rparr>)) = 1 \<and>
   sessions (sstats (run_timers 70000 \<lparr>sstats = closed_stats, timers = [(70000, JString example_id)]\<rparr>)) = [] \<and>
   success (fst (index_session_end example_env empty_world example_stats 10000 example_body)) \<and>
   validateSession_index
     (fst (index_run example_env
             (snd (index_session_end example_env empty_world example_stats 10000 example_body))
             [(20000, Interact example_body)]))
     (req_sessionId example_body)"
proof -
  have ended: "success (fst (server_session_end example_env empty_world
      \<lparr>sstats = example_stats, timers = []\<rparr> 10000 example_body))"
    by (simp add: server_end_example)
  have ended': "success (fst (index_session_end example_env empty_world example_stats 10000 example_body))"
    by (simp add: handler_defs example_defs Let_def Map_get_def Map_has_def)
  have fresh: "\<not> starts (req_sessionId example_body) (20000, Interact example_body)"
    by simp
  have count: "totalSessions closed_stats = 1"
    by (simp add: example_defs)
  have gone: "sessions (sstats (run_timers 70000
      \<lparr>sstats = closed_stats, timers = [(70000, JString example_id)]\<rparr>)) = []"
    by (simp add: run_timers_def fire_def Map_delete_key_def Map_delete_def example_defs)
  show ?thesis
    using eviction_by_timer_in_server_only
        [where E = example_env and w = empty_world and T = 10000 and req = example_body
           and ss = "\<lparr>sstats = example_stats, timers = []\<rparr>" and st = example_stats
           and evs = "[(20000, Interact example_body)]" and t = 70000]
      eviction_by_timer_in_server_only
        [where E = example_env and w = empty_world and T = 10000 and req = example_body
           and ss = "\<lparr>sstats = closed_stats, timers = [(70000, JString example_id)]\<rparr>"
           and st = example_stats and evs = "[]" and t = 70000]
      ended ended' fresh count gone
    by (simp add: counters_def)
qed

text \<open>
  The claim as it is written fails on \<^verbatim>\<open>api/index.js\<close>: a session closed at 10000 is still
  resolved at 100000, ninety seconds later, and a detection on it succeeds.
\<close>

theorem index_never_evicts_counterexample:
  "fst (snd (index_session_end example_env empty_world example_stats 10000 example_body)) = closed_stats \<and>
   success (fst (index_session_end example_env empty_world example_stats 10000 example_body)) \<and>
   (10000 :: int) + 60000 \<le> 100000 \<and>
   validateSession_index closed_stats (JString example_id) \<and>
   Map_get (sessions closed_stats) (JString example_id) = Some closed_session \<and>
   success (fst (index_detection_record example_env empty_world closed_stats 100000 example_body))"
  by (simp add: example_closed)
     (simp add: handler_defs example_defs Let_def Map_get_def Map_has_def
        faceCount_of_def objectCount_of_def default_to_def parseInt_def)

section \<open>The filter list\<close>

lemma scalars_Nil: "scalars [] = []"
  by (simp add: scalars_def)

lemma scalars_push_filter: "distinct (scalars fs) \<Longrightarrow> distinct (scalars (push_filter wn v fs))"
  by (auto simp: push_filter_def Array_includes_def scalars_def)

lemma index_handle_filters_distinct:
  "scalar_filters_distinct st \<Longrightarrow> scalar_filters_distinct (fst (snd (index_handle E w st now r)))"
  unfolding scalar_filters_distinct_def
  by (cases r)
     (auto simp: index_handle_def index_session_start_def handler_defs Let_def
        scalars_push_filter close_session_def scalars_Nil
        intro!: list_all_Map_mutate list_all_Map_set
        dest: Map_get_values split: option.splits)

lemma index_run_filters_distinct:
  "scalar_filters_distinct (fst sw) \<Longrightarrow> scalar_filters_distinct (fst (index_run E sw evs))"
  by (induction evs arbitrary: sw) (auto simp: index_handle_filters_distinct)

lemma run_timers_filters_distinct:
  "scalar_filters_distinct (sstats ss) \<Longrightarrow> scalar_filters_distinct (sstats (run_timers now ss))"
  by (simp add: scalar_filters_distinct_def run_timers_def list_all_foldl_fire)

lemma server_handle_filters_distinct:
  "scalar_filters_distinct (sstats ss) \<Longrightarrow>
   scalar_filters_distinct (sstats (fst (snd (server_handle E w ss now r))))"
  unfolding scalar_filters_distinct_def
  by (cases r)
     (auto simp: server_handle_def lift_stats_def server_session_start_def handler_defs Let_def
        scalars_push_filter close_session_def scalars_Nil
        intro!: list_all_Map_mutate list_all_Map_set
        dest: Map_get_values split: option.splits)

lemma server_run_filters_distinct:
  "scalar_filters_distinct (sstats (fst sw)) \<Longrightarrow>
   scalar_filters_distinct (sstats (fst (server_run E sw evs)))"
  by (induction evs arbitrary: sw)
     (auto simp: server_handle_filters_distinct run_timers_filters_distinct)

text \<open>
  \<^bold>\<open>C5\<close>, as the code has it.  Starting from a store whose filter lists hold no string, number
  or boolean twice (the initial, empty store is one), no run of requests, in either file,
  produces a filter list that does.  One interaction on a session of the store appends \<open>value\<close>
  exactly when \<open>widgetName\<close> is the string \<^verbatim>\<open>filterSelect\<close>, \<open>value\<close> is truthy (a string that
  is not empty, a number other than 0, \<open>true\<close>, any array or object) and \<open>value\<close> is an array or
  object, or is not in the list yet; otherwise the list is unchanged.
\<close>

theorem scalar_filters_never_duplicated:
  "(scalar_filters_distinct st \<longrightarrow> scalar_filters_distinct (fst (index_run E (st, w) evs))) \<and>
   (scalar_filters_distinct (sstats ss) \<longrightarrow>
      scalar_filters_distinct (sstats (fst (server_run E (ss, w) evs)))) \<and>
   scalar_filters_distinct initial_stats \<and>
   (truthy (req_sessionId req) \<and> Map_get (sessions st) (req_sessionId req) = Some s \<longrightarrow>
      map_option filters
        (Map_get (sessions (fst (snd (index_interaction_record E w st now req)))) (req_sessionId req)) =
        Some (if req_widgetName req = JString ''filterSelect'' \<and> truthy (req_value req) \<and>
                 (is_reference (req_value req) \<or> req_value req \<notin> set (filters s))
              then filters s @ [req_value req] else filters s) \<and>
      map_option filters
        (Map_get (sessions (fst (snd (server_interaction_record E w st now req)))) (req_sessionId req)) =
        Some (if req_widgetName req = JString ''filterSelect'' \<and> truthy (req_value req) \<and>
                 (is_reference (req_value req) \<or> req_value req \<notin> set (filters s))
              then filters s @ [req_value req] else filters s)) \<and>
   (\<forall>v. truthy (JString v) = (v \<noteq> [])) \<and>
   (\<forall>xs. truthy (JArray xs) \<and> is_reference (JArray xs)) \<and>
   (\<forall>fs. truthy (JObject fs) \<and> is_reference (JObject fs)) \<and>
   (\<forall>v. \<not> is_reference (JString v)) \<and> (\<forall>t. \<not> is_reference (JNumber t)) \<and>
   (\<forall>b. \<not> is_reference (JBool b))"
proof -
  have one: "truthy (req_sessionId req) \<Longrightarrow> Map_get (sessions st) (req_sessionId req) = Some s \<Longrightarrow>
      Map_has (sessions st) (req_sessionId req)"
    by (rule Map_has_get)
  show ?thesis
    using index_run_filters_distinct[of "(st, w)" E evs]
      server_run_filters_distinct[of "(ss, w)" E evs]
    by (auto simp: one handler_defs Let_def Map_get_mutate push_filter_def Array_includes_def
          scalar_filters_distinct_def initial_stats_def Map_values_def scalars_def)
qed

lemma filter_run_example:
  "map filters (Map_values (sessions (fst (index_run example_env (initial_stats, empty_world) filter_run))))
     = [[JString ''blur'', JString ''sepia'']]"
  by (simp add: filter_run_def index_handle_def index_session_start_def handler_defs example_defs
       Let_def example_id_eval Map_set_def Map_get_def Map_has_def Map_mutate_def
       Map_values_def push_filter_def Array_includes_def)

theorem scalar_filters_never_duplicated_witness:
  "scalar_filters_distinct initial_stats \<and>
   scalar_filters_distinct (fst (index_run example_env (initial_stats, empty_world) filter_run)) \<and>
   map filters (Map_values (sessions (fst (index_run example_env (initial_stats, empty_world) filter_run))))
     = [[JString ''blur'', JString ''sepia'']] \<and>
   scalar_filters_distinct (sstats (fst
     (server_run example_env (\<lparr>sstats = initial_stats, timers = []\<rparr>, empty_world) filter_run))) \<and>
   truthy (req_sessionId example_body) \<and>
   Map_get (sessions example_stats) (req_sessionId example_body) = Some example_session \<and>
   map_option filters
     (Map_get (sessions (fst (snd (index_interaction_record example_env empty_world example_stats 5
        (example_body\<lparr>req_widgetName := JString ''filterSelect'', req_value := JString ''blur''\<rparr>)))))
        (JString example_id)) = Some [JString ''blur''] \<and>
   map_option filters
     (Map_get (sessions (fst (snd (server_interaction_record example_env empty_world example_stats 5
        (example_body\<lparr>req_widgetName := JString ''filterSelect'', req_value := JString []\<rparr>)))))
        (JString example_id)) = Some []"
proof -
  let ?blur = "example_body\<lparr>req_widgetName := JString ''filterSelect'', req_value := JString ''blur''\<rparr>"
  let ?empty = "example_body\<lparr>req_widgetName := JString ''filterSelect'', req_value := JString []\<rparr>"
  have given: "truthy (req_sessionId example_body)" "req_sessionId ?blur = JString example_id"
    "req_sessionId ?empty = JString example_id" "req_sessionId example_body = JString example_id"
    by (simp_all add: example_defs)
  have present: "Map_get (sessions example_stats) (JString example_id) = Some example_session"
    by (simp add: Map_get_def example_defs)
  have none: "filters example_session = []"
    by (simp add: example_defs)
  have start: "scalar_filters_distinct (sstats \<lparr>sstats = initial_stats, timers = []\<rparr>)"
    by (simp add: scalar_filters_distinct_def initial_stats_def Map_values_def)
  show ?thesis
    using scalar_filters_never_duplicated
        [where st = initial_stats and E = example_env and w = empty_world and evs = filter_run
           and ss = "\<lparr>sstats = initial_stats, timers = []\<rparr>"]
      scalar_filters_never_duplicated
        [where st = example_stats and E = example_env and w = empty_world and now = 5
           and req = ?blur and s = example_session]
      scalar_filters_never_duplicated
        [where st = example_stats and E = example_env and w = empty_world and now = 5
           and req = ?empty and s = example_session]
      filter_run_example given present none start
    by simp
qed

text \<open>
  The claim as it is written fails on a value that is an array: \<^verbatim>\<open>["blur"]\<close> sent twice is
  stored twice, since \<^verbatim>\<open>includes\<close> compares arrays by reference, and the empty array, which is
  truthy, is appended too.
\<close>

theorem array_filter_stored_twice:
  "map filters (Map_values (sessions (fst (index_run example_env (initial_stats, empty_world) array_run))))
     = [[JArray [JString ''blur''], JArray [JString ''blur''], JArray []]] \<and>
   map filters (Map_values (sessions (sstats (fst
       (server_run example_env (\<lparr>sstats = initial_stats, timers = []\<rparr>, empty_world) array_run)))))
     = [[JArray [JString ''blur''], JArray [JString ''blur''], JArray []]] \<and>
   \<not> distinct [JArray [JString ''blur''], JArray [JString ''blur''], JArray []]"
  by (simp add: array_run_def index_handle_def index_session_start_def handler_defs example_defs
       server_handle_def lift_stats_def server_session_start_def run_timers_def
       Let_def example_id_eval Map_set_def Map_get_def Map_has_def Map_mutate_def
       Map_values_def push_filter_def Array_includes_def)

section \<open>The average duration\<close>

text \<open>
  \<open>duration\<close> is written by the end-session handlers only, together with \<open>endTime\<close>; so in every
  state a run reaches, a session without \<open>endTime\<close> has no \<open>duration\<close>.
\<close>

lemma index_handle_open_without_duration:
  "open_without_duration st \<Longrightarrow> open_without_duration (fst (snd (index_handle E w st now r)))"
  unfolding open_without_duration_def
  by (cases r)
     (auto simp: index_handle_def index_session_start_def handler_defs Let_def close_session_def
        intro!: list_all_Map_mutate list_all_Map_set
        dest: Map_get_values split: option.splits)

lemma index_run_open_without_duration:
  "open_without_duration (fst sw) \<Longrightarrow> open_without_duration (fst (index_run E sw evs))"
  by (induction evs arbitrary: sw) (auto simp: index_handle_open_without_duration)

lemma server_handle_open_without_duration:
  "open_without_duration (sstats ss) \<Longrightarrow>
   open_without_duration (sstats (fst (snd (server_handle E w ss now r))))"
  unfolding open_without_duration_def
  by (cases r)
     (auto simp: server_handle_def lift_stats_def server_session_start_def handler_defs Let_def
        close_session_def
        intro!: list_all_Map_mutate list_all_Map_set
        dest: Map_get_values split: option.splits)

lemma run_timers_open_without_duration:
  "open_without_duration (sstats ss) \<Longrightarrow> open_without_duration (sstats (run_timers now ss))"
  by (simp add: open_without_duration_def run_timers_def list_all_foldl_fire)

lemma server_run_open_without_duration:
  "open_without_duration (sstats (fst sw)) \<Longrightarrow>
   open_without_duration (sstats (fst (server_run E sw evs)))"
  by (induction evs arbitrary: sw)
     (auto simp: server_handle_open_without_duration run_timers_open_without_duration)

lemma sum_of_no_durations:
  "list_all (\<lambda>s. duration s = None) xs \<Longrightarrow> foldl (\<lambda>acc s. acc + duration_or_zero s) a xs = a"
  by (induction xs arbitrary: a) (auto simp: duration_or_zero_def)

lemma avgDuration_zero: "open_without_duration st \<Longrightarrow> avgDuration st = 0"
proof -
  assume "open_without_duration st"
  then have "list_all (\<lambda>s. duration s = None) (activeSessions st)"
    by (auto simp: open_without_duration_def activeSessions_def list_all_iff)
  then show ?thesis
    by (simp add: avgDuration_def sum_of_no_durations round_div_def)
qed

text \<open>The average duration \<^verbatim>\<open>GET /api/stats\<close> reports is 0 in every state either file can reach.\<close>

lemma avgDuration_always_zero:
  "avgDuration (fst (index_run E (initial_stats, w) evs)) = 0 \<and>
   avgDuration (sstats (fst (server_run E (\<lparr>sstats = initial_stats, timers = []\<rparr>, w) evs))) = 0"
proof -
  have "open_without_duration initial_stats"
    by (simp add: open_without_duration_def initial_stats_def Map_values_def)
  then show ?thesis
    using index_run_open_without_duration[of "(initial_stats, w)" E evs]
      server_run_open_without_duration[of "(\<lparr>sstats = initial_stats, timers = []\<rparr>, w)" E evs]
    by (simp add: avgDuration_zero)
qed

lemma end_run_example:
  "fst (index_run example_env (initial_stats, empty_world) end_run) = closed_stats"
  by (simp add: end_run_def index_handle_def index_session_start_def handler_defs example_defs Let_def
       example_id_eval Map_set_def Map_get_def Map_has_def Map_mutate_def
       close_session_def round_div_def)

text \<open>
  \<^bold>\<open>C6\<close> fails on the code.  After one session has been started and, ten seconds later, ended,
  the only closed session has duration 10, so the average duration of the closed sessions is 10;
  the snapshot reports 0, because the handler sums \<open>duration\<close> over the sessions that have no
  \<open>endTime\<close> and divides by \<open>totalSessions\<close>.
\<close>

theorem avgDuration_ignores_closed_sessions:
  "fst (index_run example_env (initial_stats, empty_world) end_run) = closed_stats \<and>
   map (\<lambda>s. (endTime s, duration s)) (Map_values (sessions closed_stats)) = [(Some 10000, Some 10)] \<and>
   spec_avgDurationOfClosedSessions closed_stats = 10 \<and>
   avgDuration closed_stats = 0 \<and>
   api_stats closed_stats 20000 =
     StatsSnapshot
       \<lparr>st_totalSessions = 1, st_activeSessions = 0, st_totalDetections = Num 0,
        st_totalFaceDetections = Num 0, st_totalInteractions = 0,
        st_avgDetectionsPerSession = Num 0, st_avgDuration = 0\<rparr> []"
  by (simp add: end_run_example)
     (simp add: example_defs Map_values_def spec_avgDurationOfClosedSessions_def avgDuration_def
        avgDetectionsPerSession_def activeSessions_def duration_or_zero_def round_div_def api_stats_def)

section \<open>Rotation\<close>

text \<open>
  A joined path ends with the character its last argument ends with, when that is neither a
  separator nor a dot.  The day's file ends in \<^verbatim>\<open>g\<close> and its backup in \<^verbatim>\<open>p\<close>, so the two paths
  differ whatever \<^verbatim>\<open>LOGS_DIR\<close>, the event type and the date are.
\<close>

lemma last_split_on:
  "xs \<noteq> [] \<Longrightarrow> last xs \<noteq> c \<Longrightarrow>
   last (split_on c xs) \<noteq> [] \<and> last (last (split_on c xs)) = last xs"
proof (induction xs)
  case Nil
  then show ?case by simp
next
  case (Cons x xs)
  show ?case
  proof (cases "xs = []")
    case True
    with Cons.prems show ?thesis by simp
  next
    case False
    with Cons have ih: "last (split_on c xs) \<noteq> []" "last (last (split_on c xs)) = last xs"
      by auto
    obtain seg segs where s: "split_on c xs = seg # segs"
      using split_on_nonempty[of c xs] by (cases "split_on c xs") auto
    show ?thesis
      using ih False s by (auto split: list.splits)
  qed
qed

lemma last_join_with:
  "seg \<noteq> [] \<Longrightarrow> join_with sep (xs @ [seg]) \<noteq> [] \<and> last (join_with sep (xs @ [seg])) = last seg"
  by (induction sep xs rule: join_with.induct) auto

lemma last_normalizeString:
  assumes "path \<noteq> []" and "last path \<noteq> CHR ''/''" and "last path \<noteq> CHR ''.''"
  shows "normalizeString path a \<noteq> [] \<and> last (normalizeString path a) = last path"
proof -
  let ?segs = "split_on CHR ''/'' path"
  let ?seg = "last ?segs"
  have seg: "?seg \<noteq> []" "last ?seg = last path"
    using last_split_on[OF assms(1,2)] by auto
  then have plain: "?seg \<noteq> ''.''" "?seg \<noteq> ''..''"
    using assms(3) by auto
  have "?segs = butlast ?segs @ [?seg]"
    using split_on_nonempty[of "CHR ''/''" path] by simp
  then have "foldl (push_segment a) [] ?segs =
      foldl (push_segment a) [] (butlast ?segs) @ [?seg]"
    using seg(1) plain
    by (metis (no_types, lifting) foldl_Cons foldl_Nil foldl_append push_segment_def)
  then show ?thesis
    using last_join_with[OF seg(1)] seg(2) by (simp add: normalizeString_def)
qed

lemma last_path_join:
  assumes "name \<noteq> []" and "last name \<noteq> CHR ''/''" and "last name \<noteq> CHR ''.''"
  shows "last (path_join [d, name]) = last name"
proof -
  let ?joined = "if d = [] then name else d @ ''/'' @ name"
  have j: "?joined \<noteq> []" "last ?joined = last name"
    using assms(1) by auto
  have "last (path_normalize ?joined) = last ?joined"
    using last_normalizeString[of ?joined "\<not> (hd ?joined = CHR ''/'')"] j assms
    by (simp add: path_normalize_def Let_def)
  then show ?thesis
    using assms(1) j by (auto simp: path_join_def)
qed

lemma logPath_neq_backupPath: "logPath_of E now ev \<noteq> backupPath_of E now ev"
proof -
  have "last (logPath_of E now ev) = CHR ''g''"
    unfolding logPath_of_def by (subst last_path_join) simp_all
  moreover have "last (backupPath_of E now ev) = CHR ''p''"
    unfolding backupPath_of_def by (subst last_path_join) simp_all
  ultimately show ?thesis by auto
qed

text \<open>
  \<^bold>\<open>C7\<close>, as the code has it.  The test is \<^verbatim>\<open>size > MAX_LOG_FILE_SIZE\<close>.  When the day's file exists
  and no file-system call fails: if its size is greater than 10 MiB, the logger (of either file)
  renames it to the backup path and the append creates the file anew, so that afterwards the
  backup holds the old file and the day's file holds the appended entry and nothing else; if
  its size is 10 MiB or less, the entry is appended to the file where it is.
\<close>

theorem rotation_above_threshold:
  assumes "map_of (nodes w) (logPath_of E now ev) = Some (File f)"
    and "\<not> faults w StatOp (logPath_of E now ev)"
    and "\<not> faults w RenameOp (logPath_of E now ev)"
    and "\<not> faults w AppendOp (logPath_of E now ev)"
  shows "(fsize f > MAX_LOG_FILE_SIZE \<longrightarrow>
            logToFile_server E w now ev d = logToFile_index E w now ev d \<and>
            fst (logToFile_index E w now ev d) \<and>
            map_of (nodes (snd (logToFile_index E w now ev d))) (backupPath_of E now ev) = Some (File f) \<and>
            map_of (nodes (snd (logToFile_index E w now ev d))) (logPath_of E now ev) =
              Some (File \<lparr>content = logEntry_of E now ev d, mtime = now\<rparr>) \<and>
            map_option node_size (map_of (nodes (snd (logToFile_index E w now ev d))) (logPath_of E now ev)) =
              Some (length (logEntry_of E now ev d)))
       \<and> (fsize f \<le> MAX_LOG_FILE_SIZE \<longrightarrow>
            logToFile_server E w now ev d = logToFile_index E w now ev d \<and>
            fst (logToFile_index E w now ev d) \<and>
            map_of (nodes (snd (logToFile_index E w now ev d))) (logPath_of E now ev) =
              Some (File \<lparr>content = content f @ logEntry_of E now ev d, mtime = now\<rparr>))
       \<and> MAX_LOG_FILE_SIZE = 10485760"
  using assms logPath_neq_backupPath[of E now ev]
  by (auto simp: logToFile_index_def logToFile_server_def rotate_def fs_defs Let_def
        update_conv' delete_conv' MAX_LOG_FILE_SIZE_def)

lemma paths_example:
  "logPath_of example_env 5 ''SESSION_START'' = ''/tmp/logs/SESSION_START_1970-01-01.log''"
  "backupPath_of example_env 5 ''SESSION_START'' = ''/tmp/logs/SESSION_START_1970-01-01_5.log.backup''"
  by (simp_all add: logPath_of_def backupPath_of_def dateString_of_def example_env_def path_defs
        decimal_eval)

lemma entry_example: "length (logEntry_of example_env 5 ''SESSION_START'' (JV JNull)) = 3"
  by (simp add: logEntry_of_def example_env_def)

theorem rotation_above_threshold_witness:
  "map_option node_size (map_of (nodes oversize_world) (logPath_of example_env 5 ''SESSION_START'')) =
     Some (MAX_LOG_FILE_SIZE + 1) \<and>
   fst (logToFile_index example_env oversize_world 5 ''SESSION_START'' (JV JNull)) \<and>
   map_option node_size
     (map_of (nodes (snd (logToFile_index example_env oversize_world 5 ''SESSION_START'' (JV JNull))))
        (backupPath_of example_env 5 ''SESSION_START'')) = Some (MAX_LOG_FILE_SIZE + 1) \<and>
   map_option node_size
     (map_of (nodes (snd (logToFile_index example_env oversize_world 5 ''SESSION_START'' (JV JNull))))
        (logPath_of example_env 5 ''SESSION_START'')) = Some 3"
proof -
  let ?f = "\<lparr>content = replicate (MAX_LOG_FILE_SIZE + 1) CHR ''x'', mtime = 1\<rparr>"
  have present: "map_of (nodes oversize_world) (logPath_of example_env 5 ''SESSION_START'') = Some (File ?f)"
    by (simp add: oversize_world_def paths_example)
  have sound: "\<not> faults oversize_world StatOp (logPath_of example_env 5 ''SESSION_START'')"
    "\<not> faults oversize_world RenameOp (logPath_of example_env 5 ''SESSION_START'')"
    "\<not> faults oversize_world AppendOp (logPath_of example_env 5 ''SESSION_START'')"
    by (simp_all add: oversize_world_def)
  have large: "fsize ?f = MAX_LOG_FILE_SIZE + 1"
    by (simp add: fsize_def)
  show ?thesis
    using rotation_above_threshold[OF present sound, of "JV JNull"] present large entry_example
    by (simp add: fsize_def)
qed

text \<open>
  The claim as it is written fails at the threshold itself: a file of exactly 10 MiB is not
  renamed; the entry of 3 bytes is appended to it, and no backup appears.
\<close>

theorem threshold_size_not_rotated:
  "MAX_LOG_FILE_SIZE = 10 * 1024 * 1024 \<and>
   map_option node_size (map_of (nodes threshold_world) (logPath_of example_env 5 ''SESSION_START'')) =
     Some MAX_LOG_FILE_SIZE \<and>
   length (logEntry_of example_env 5 ''SESSION_START'' (JV JNull)) = 3 \<and>
   fst (logToFile_index example_env threshold_world 5 ''SESSION_START'' (JV JNull)) \<and>
   map_option node_size
     (map_of (nodes (snd (logToFile_index example_env threshold_world 5 ''SESSION_START'' (JV JNull))))
        (logPath_of example_env 5 ''SESSION_START'')) = Some (MAX_LOG_FILE_SIZE + 3) \<and>
   map_of (nodes (snd (logToFile_index example_env threshold_world 5 ''SESSION_START'' (JV JNull))))
        (backupPath_of example_env 5 ''SESSION_START'') = None \<and>
   logToFile_server example_env threshold_world 5 ''SESSION_START'' (JV JNull) =
     logToFile_index example_env threshold_world 5 ''SESSION_START'' (JV JNull)"
proof -
  let ?f = "\<lparr>content = replicate MAX_LOG_FILE_SIZE CHR ''x'', mtime = 1\<rparr>"
  have present: "map_of (nodes threshold_world) (logPath_of example_env 5 ''SESSION_START'') = Some (File ?f)"
    by (simp add: threshold_world_def paths_example)
  have size: "fsize ?f = MAX_LOG_FILE_SIZE"
    by (simp add: fsize_def)
  have kept: "rotate example_env threshold_world 5 ''SESSION_START'' = Inr threshold_world"
    using present size
    by (simp add: rotate_def Let_def existsSync_def statSync_def threshold_world_def)
  have written: "logToFile_index example_env threshold_world 5 ''SESSION_START'' (JV JNull) =
      (True, threshold_world\<lparr>nodes :=
         [(''/tmp/logs'', Dir 4096 0),
          (''/tmp/logs/SESSION_START_1970-01-01.log'',
           File \<lparr>content = replicate MAX_LOG_FILE_SIZE CHR ''x'' @ logEntry_of example_env 5 ''SESSION_START'' (JV JNull),
                 mtime = 5\<rparr>)]\<rparr>)"
    by (simp add: logToFile_index_def kept appendFileSync_def paths_example)
       (simp add: threshold_world_def)
  have same: "logToFile_server example_env threshold_world 5 ''SESSION_START'' (JV JNull) =
      logToFile_index example_env threshold_world 5 ''SESSION_START'' (JV JNull)"
    by (simp add: logToFile_index_def logToFile_server_def kept appendFileSync_def paths_example)
       (simp add: threshold_world_def)
  have limit: "MAX_LOG_FILE_SIZE = 10 * 1024 * 1024"
    by (simp add: MAX_LOG_FILE_SIZE_def)
  have before: "map_option node_size
      (map_of (nodes threshold_world) (logPath_of example_env 5 ''SESSION_START'')) = Some MAX_LOG_FILE_SIZE"
    using present size by simp
  have after: "map_option node_size
      (map_of (nodes (snd (logToFile_index example_env threshold_world 5 ''SESSION_START'' (JV JNull))))
         (logPath_of example_env 5 ''SESSION_START'')) = Some (MAX_LOG_FILE_SIZE + 3)"
    using entry_example by (simp add: written paths_example fsize_def)
  have none: "map_of (nodes (snd (logToFile_index example_env threshold_world 5 ''SESSION_START'' (JV JNull))))
         (backupPath_of example_env 5 ''SESSION_START'') = None"
    by (simp add: written paths_example)
  have logged: "fst (logToFile_index example_env threshold_world 5 ''SESSION_START'' (JV JNull))"
    by (simp add: written)
  show ?thesis
    using limit before entry_example logged after none same by blast
qed

section \<open>Reading a log file\<close>


text \<open>
  A directory in the log root whose name ends in \<^verbatim>\<open>.log\<close> cannot be read as a file, and a
  \<^verbatim>\<open>stat\<close> that fails after the read makes the answer a 500.
\<close>

lemma read_failures:
  "api_logs_read example_env rotated_world ''archive.log'' = Failure 500"
  "api_logs_read example_env stat_fault_world ''SESSION_START_1970-01-01.log'' = Failure 500"
  by (simp_all add: api_logs_read_def example_env_def stat_fault_world_def rotated_world_def
        join_examples startsWith_def endsWith_def fs_defs)




text \<open>
  The comment over the guard reads \<^verbatim>\<open>Prevenir directory traversal\<close>, and the guard is a test on
  strings that looks for no separator after the root: with \<^verbatim>\<open>LOGS_DIR = /tmp/logs\<close>, the names
  \<^verbatim>\<open>../logs.log\<close> and \<^verbatim>\<open>../logs-private/keys.log\<close> are joined to paths that begin with
  \<^verbatim>\<open>/tmp/logs\<close> and are not inside it; the files are read and returned.
\<close>

lemma sibling_of_log_root_is_read:
  "path_join [LOGS_DIR example_env, ''../logs.log''] = ''/tmp/logs.log'' \<and>
   \<not> inside (path_resolve (cwd example_env) (LOGS_DIR example_env)) ''/tmp/logs.log'' \<and>
   api_logs_read example_env sibling_world ''../logs.log'' = LogContent ''../logs.log'' ''secret'' 6 1 \<and>
   path_join [LOGS_DIR example_env, ''../logs-private/keys.log''] = ''/tmp/logs-private/keys.log'' \<and>
   \<not> inside (path_resolve (cwd example_env) (LOGS_DIR example_env)) ''/tmp/logs-private/keys.log'' \<and>
   api_logs_read example_env sibling_world ''../logs-private/keys.log'' =
     LogContent ''../logs-private/keys.log'' ''private'' 7 1"
  by (simp add: api_logs_read_def example_env_def sibling_world_def inside_def
        join_examples startsWith_def endsWith_def fs_defs)

section \<open>Log failures\<close>

lemma faults_rotate: "rotate E w now ev = Inr w1 \<Longrightarrow> faults w1 = faults w"
  by (auto simp: rotate_def renameSync_def Let_def
      split: if_splits sum.splits option.splits fsnode.splits)

lemma logToFile_index_append_fault:
  "faults w AppendOp (logPath_of E now ev) \<Longrightarrow> \<not> fst (logToFile_index E w now ev d)"
  by (auto simp: logToFile_index_def appendFileSync_def faults_rotate split: sum.splits)

text \<open>
  \<^bold>\<open>C9\<close>.  \<^verbatim>\<open>logToFile\<close> turns every exception of the size check, the rename and the write into its
  return value, which no handler reads.  So the response and the statistics a handler returns
  do not depend on the file system at all: they are the same in any two worlds, whichever calls
  fail in them.  (In \<^verbatim>\<open>api/index.js\<close> a failing write makes \<^verbatim>\<open>logToFile\<close> return \<open>false\<close>.)
\<close>

theorem logging_failure_never_reaches_caller:
  "fst (index_session_start E w st now rnd ua ip) = fst (index_session_start E w' st now rnd ua ip) \<and>
   fst (snd (index_session_start E w st now rnd ua ip)) = fst (snd (index_session_start E w' st now rnd ua ip)) \<and>
   fst (index_detection_record E w st now req) = fst (index_detection_record E w' st now req) \<and>
   fst (snd (index_detection_record E w st now req)) = fst (snd (index_detection_record E w' st now req)) \<and>
   fst (index_interaction_record E w st now req) = fst (index_interaction_record E w' st now req) \<and>
   fst (snd (index_interaction_record E w st now req)) = fst (snd (index_interaction_record E w' st now req)) \<and>
   fst (index_session_end E w st now req) = fst (index_session_end E w' st now req) \<and>
   fst (snd (index_session_end E w st now req)) = fst (snd (index_session_end E w' st now req)) \<and>
   fst (server_session_start E w st now rnd ua ip) = fst (server_session_start E w' st now rnd ua ip) \<and>
   fst (snd (server_session_start E w st now rnd ua ip)) = fst (snd (server_session_start E w' st now rnd ua ip)) \<and>
   fst (server_detection_record E w st now req) = fst (server_detection_record E w' st now req) \<and>
   fst (snd (server_detection_record E w st now req)) = fst (snd (server_detection_record E w' st now req)) \<and>
   fst (server_interaction_record E w st now req) = fst (server_interaction_record E w' st now req) \<and>
   fst (snd (server_interaction_record E w st now req)) = fst (snd (server_interaction_record E w' st now req)) \<and>
   fst (server_session_end E w ss now req) = fst (server_session_end E w' ss now req) \<and>
   fst (snd (server_session_end E w ss now req)) = fst (snd (server_session_end E w' ss now req)) \<and>
   (faults w AppendOp (logPath_of E now ev) \<longrightarrow> \<not> fst (logToFile_index E w now ev d))"
  by (simp add: handler_defs index_session_start_def server_session_start_def Let_def
        logToFile_index_append_fault split: option.splits)

theorem logging_failure_never_reaches_caller_witness:
  "faults broken_disk AppendOp (logPath_of example_env 1000 ''DETECTION_RECORD'') \<and>
   \<not> fst (logToFile_index example_env broken_disk 1000 ''DETECTION_RECORD'' (JV JNull)) \<and>
   fst (index_detection_record example_env broken_disk example_stats 1000
          (example_body\<lparr>req_faceCount := JNumber ''2''\<rparr>)) =
     DetectionRecorded (Num 2) (Num 0) (Num 2) (Num 2) (Num 2) \<and>
   fst (index_detection_record example_env empty_world example_stats 1000
          (example_body\<lparr>req_faceCount := JNumber ''2''\<rparr>)) =
     DetectionRecorded (Num 2) (Num 0) (Num 2) (Num 2) (Num 2) \<and>
   fst (snd (index_detection_record example_env broken_disk example_stats 1000
          (example_body\<lparr>req_faceCount := JNumber ''2''\<rparr>))) =
     fst (snd (index_detection_record example_env empty_world example_stats 1000
          (example_body\<lparr>req_faceCount := JNumber ''2''\<rparr>)))"
proof -
  have broken: "faults broken_disk AppendOp (logPath_of example_env 1000 ''DETECTION_RECORD'')"
    by (simp add: broken_disk_def)
  have answer: "fst (index_detection_record example_env empty_world example_stats 1000
          (example_body\<lparr>req_faceCount := JNumber ''2''\<rparr>)) =
     DetectionRecorded (Num 2) (Num 0) (Num 2) (Num 2) (Num 2)"
    by (simp add: handler_defs example_defs Let_def Map_get_def Map_has_def
        faceCount_of_def objectCount_of_def default_to_def or_zero_def parseInt_def
        parse_examples to_double_small)
  show ?thesis
    using logging_failure_never_reaches_caller
        [where E = example_env and w = broken_disk and w' = empty_world and st = example_stats
           and now = 1000 and req = "example_body\<lparr>req_faceCount := JNumber ''2''\<rparr>"
           and ev = "''DETECTION_RECORD''" and d = "JV JNull"]
      broken answer
    by simp
qed

section \<open>Backups stay out of sight\<close>











end
